theory Spec2Isabelle
  imports Main
begin

section \<open>Data model of the sidecar supervisor (src/main/python-bridge.ts)\<close>

text \<open>
  The class \<open>PythonBridge\<close> keeps its state in mutable instance fields and talks to the
  outside through \<open>emit\<close>, \<open>fetch\<close>, \<open>spawn\<close>, \<open>kill\<close> and timers. The embedding passes
  the fields around as a record and returns, next to the new state, the list of outside
  actions a piece of code performs, in program order. What the outside answers (the
  outcome of a \<open>fetch\<close>, the exit code of the child, what the file system reports) is an
  argument of the function that consumes it.
\<close>

subsection \<open>Shared types (src/shared/types, as declared beside the renderer components)\<close>

record DownloadProgress =
  downloadId :: string
  status :: string
  progress :: int
  speed :: "string option"
  eta :: "string option"
  filename :: "string option"
  error :: "string option"

record DownloadOptions =
  url :: string
  outputDir :: string
  mode :: string
  videoFormat :: "string option"
  audioFormat :: "string option"
  quality :: "string option"
  startTime :: "string option"
  endTime :: "string option"

record StartResult =
  result_downloadId :: string

subsection \<open>Outside actions\<close>

datatype signal = SIGTERM | SIGKILL

text \<open>The JSON bodies the bridge sends: \<open>{ url }\<close>, the options object, \<open>{ downloadId }\<close>.\<close>

datatype body = UrlBody string | OptionsBody DownloadOptions | IdBody string

text \<open>The four event channels of the emitter; a status payload is \<open>{ ready, error? }\<close>.\<close>

datatype event =
    Status bool "string option"
  | Progress DownloadProgress
  | Complete DownloadProgress
  | Error DownloadProgress

datatype callback = RestartCb | ForceKillCb | ShutdownCb

datatype effect =
    Emit event
  | Fetch nat string string "body option"
  | Spawn
  | Kill signal
  | SetTimeout callback nat
  | SetInterval nat
  | ClearInterval

text \<open>
  \<open>Fetch port method endpoint body\<close> is one call of \<open>fetch\<close> on
  \<open>http://127.0.0.1:port/endpoint\<close>. What comes back is either a rejection (the call
  throws) or a response with its \<open>ok\<close> flag, its status code and its body; the body is
  \<open>None\<close> when \<open>response.json()\<close> throws, and otherwise one object read both for its
  \<open>error\<close>/\<open>message\<close> fields and, cast to the expected type, as the result.
\<close>

datatype 'a data = Data (data_error: "string option") (data_message: "string option") (data_value: 'a)

datatype 'a Response = Response (ok: bool) (status_code: nat) (json: "'a data option")

datatype 'a fetch_result = Rejected string | Resolved "'a Response"

subsection \<open>Errors\<close>

text \<open>
  The source throws plain \<open>Error\<close> objects that differ in their message only; one
  constructor stands for each way \<open>request\<close> fails: the guard (its message is
  \<open>Python server is not ready\<close>), a status that is not \<open>ok\<close> (with the message the
  source builds), a rejected \<open>fetch\<close> (with its message) and a body that
  \<open>response.json()\<close> rejects (its message, which depends on the body, is left out).
  The failures of \<open>start\<close> are \<open>start_error\<close> below.
\<close>

datatype bridge_error =
    NotReadyError
  | WorkerRequestError string
  | FetchFailed string
  | JsonParseError

function show_nat :: "nat \<Rightarrow> string" where
  "show_nat n =
     (if n < 10 then [''0123456789'' ! n]
      else show_nat (n div 10) @ [''0123456789'' ! (n mod 10)])"
  by pat_completeness auto
termination
  by (relation "measure id") auto

declare show_nat.simps [simp del]

definition show_int :: "int \<Rightarrow> string" where
  "show_int i = (if i < 0 then ''-'' @ show_nat (nat (- i)) else show_nat (nat i))"

text \<open>JavaScript's \<open>a || b\<close> on strings: the empty string is falsy.\<close>

definition or_else :: "string \<Rightarrow> string \<Rightarrow> string" where
  "or_else a b = (if a = [] then b else a)"

definition MIN_EXE_SIZE :: nat where
  "MIN_EXE_SIZE = 10 * 1024 * 1024"

definition POLL_INTERVAL :: nat where
  "POLL_INTERVAL = 500"

definition maxRetries :: nat where
  "maxRetries = 3"

subsection \<open>The instance fields\<close>

record ChildProcess =
  killed :: bool
  exitCode :: "int option"

text \<open>
  \<open>pollInterval\<close> is the timer handle (\<open>True\<close>: a handle is stored, \<open>False\<close>: null).
  \<open>activeDownloads\<close> is a JavaScript \<open>Set\<close>, which iterates in insertion order: a list
  without repetitions, with \<open>set_add\<close> and \<open>set_delete\<close> as its \<open>add\<close> and \<open>delete\<close>.
  \<open>maxRetries\<close> is a field initialised to 3 and never assigned: the constant above.
\<close>

record PythonBridge =
  process :: "ChildProcess option"
  port :: nat
  ready :: bool
  starting :: bool
  shouldRestart :: bool
  retryCount :: nat
  lastError :: string
  outputBuffer :: "string list"
  pollInterval :: bool
  activeDownloads :: "string list"

definition set_add :: "string \<Rightarrow> string list \<Rightarrow> string list" where
  "set_add x xs = (if x \<in> set xs then xs else xs @ [x])"

definition set_delete :: "string \<Rightarrow> string list \<Rightarrow> string list" where
  "set_delete x xs = filter (\<lambda>y. y \<noteq> x) xs"

definition initial :: PythonBridge where
  "initial = \<lparr> process = None, port = 0, ready = False, starting = False,
     shouldRestart = True, retryCount = 0, lastError = [], outputBuffer = [],
     pollInterval = False, activeDownloads = [] \<rparr>"

section \<open>Request client\<close>

text \<open>
  \<open>request\<close> (lines 395-416): the readiness guard, one \<open>fetch\<close>, the body, the status
  check. It changes no field, so it returns its result and its actions only.
\<close>

definition request ::
  "PythonBridge \<Rightarrow> string \<Rightarrow> string \<Rightarrow> body option \<Rightarrow> 'a fetch_result
     \<Rightarrow> (bridge_error + 'a) \<times> effect list" where
  "request s endpoint method b net =
     (if \<not> ready s then (Inl NotReadyError, [])
      else
        ((case net of
           Rejected m \<Rightarrow> Inl (FetchFailed m)
         | Resolved r \<Rightarrow>
             (case json r of
                None \<Rightarrow> Inl JsonParseError
              | Some d \<Rightarrow>
                  if \<not> ok r then
                    Inl (WorkerRequestError
                      (or_else (case data_error d of None \<Rightarrow> [] | Some e \<Rightarrow> e)
                        (or_else (case data_message d of None \<Rightarrow> [] | Some m \<Rightarrow> m)
                          (''Request failed with status '' @ show_nat (status_code r)))))
                  else Inr (data_value d))),
         [Fetch (port s) method endpoint b]))"

definition getVideoInfo ::
  "PythonBridge \<Rightarrow> string \<Rightarrow> 'a fetch_result \<Rightarrow> (bridge_error + 'a) \<times> effect list" where
  "getVideoInfo s u net = request s ''/api/video/info'' ''POST'' (Some (UrlBody u)) net"

section \<open>Job tracker\<close>

definition startPolling :: "PythonBridge \<Rightarrow> PythonBridge \<times> effect list" where
  "startPolling s =
     (if pollInterval s then (s, [])
      else (s\<lparr>pollInterval := True\<rparr>, [SetInterval POLL_INTERVAL]))"

definition stopPolling :: "PythonBridge \<Rightarrow> PythonBridge \<times> effect list" where
  "stopPolling s =
     (if pollInterval s then (s\<lparr>pollInterval := False\<rparr>, [ClearInterval])
      else (s, []))"

text \<open>
  \<open>startDownload\<close> (lines 425-436) awaits \<open>request\<close>; the lines after the \<open>await\<close> run
  only when it did not throw, on the fields as they are at that moment.
  \<open>startDownload_resume\<close> is that continuation, \<open>startDownload\<close> the whole call when
  nothing else ran in between.
\<close>

definition startDownload_resume ::
  "PythonBridge \<Rightarrow> (bridge_error + StartResult) \<Rightarrow>
     PythonBridge \<times> effect list \<times> (bridge_error + StartResult)" where
  "startDownload_resume s r =
     (case r of
        Inl e \<Rightarrow> (s, [], Inl e)
      | Inr result \<Rightarrow>
          (let s1 = s\<lparr>activeDownloads := set_add (result_downloadId result) (activeDownloads s)\<rparr>;
               (s2, effs) = startPolling s1
           in (s2, effs, Inr result)))"

definition startDownload ::
  "PythonBridge \<Rightarrow> DownloadOptions \<Rightarrow> StartResult fetch_result \<Rightarrow>
     PythonBridge \<times> effect list \<times> (bridge_error + StartResult)" where
  "startDownload s options net =
     (let (r, effs) = request s ''/api/download/start'' ''POST'' (Some (OptionsBody options)) net;
          (s', effs', out) = startDownload_resume s r
      in (s', effs @ effs', out))"

text \<open>\<open>cancelDownload\<close> (lines 438-444), split at its \<open>await\<close> in the same way.\<close>

definition cancelDownload_resume ::
  "PythonBridge \<Rightarrow> string \<Rightarrow> (bridge_error + 'a) \<Rightarrow>
     PythonBridge \<times> (bridge_error + unit)" where
  "cancelDownload_resume s did r =
     (case r of
        Inl e \<Rightarrow> (s, Inl e)
      | Inr _ \<Rightarrow> (s\<lparr>activeDownloads := set_delete did (activeDownloads s)\<rparr>, Inr ()))"

definition cancelDownload ::
  "PythonBridge \<Rightarrow> string \<Rightarrow> 'a fetch_result \<Rightarrow>
     PythonBridge \<times> effect list \<times> (bridge_error + unit)" where
  "cancelDownload s did net =
     (let (r, effs) = request s ''/api/download/cancel'' ''POST'' (Some (IdBody did)) net;
          (s', out) = cancelDownload_resume s did r
      in (s', effs, out))"

text \<open>
  \<open>clearDownload\<close> (lines 278-286): one \<open>DELETE\<close>, inside a \<open>try\<close> whose \<open>catch\<close> is
  empty, so the promise it returns resolves whatever the outcome of the call.
\<close>

definition clearDownload ::
  "PythonBridge \<Rightarrow> string \<Rightarrow> 'a fetch_result \<Rightarrow> (bridge_error + unit) \<times> effect list" where
  "clearDownload s did net =
     (case net of
        Rejected _ \<Rightarrow> (Inr (), [Fetch (port s) ''DELETE'' (''/api/download/clear/'' @ did) None])
      | Resolved _ \<Rightarrow> (Inr (), [Fetch (port s) ''DELETE'' (''/api/download/clear/'' @ did) None]))"

text \<open>
  The body of the \<open>for\<close> loop of the poll callback (lines 245-259), for one record of the
  list. \<open>clearDownload\<close> is called and not awaited: its \<open>DELETE\<close> goes out, and what comes
  back reaches no field, which is why no outcome is an argument here.
\<close>

definition handleProgress :: "PythonBridge \<Rightarrow> DownloadProgress \<Rightarrow> PythonBridge \<times> effect list" where
  "handleProgress s p =
     (if status p = ''complete'' then
        (s\<lparr>activeDownloads := set_delete (downloadId p) (activeDownloads s)\<rparr>,
         [Emit (Complete p), Fetch (port s) ''DELETE'' (''/api/download/clear/'' @ downloadId p) None])
      else if status p = ''error'' then
        (s\<lparr>activeDownloads := set_delete (downloadId p) (activeDownloads s)\<rparr>,
         [Emit (Error p), Fetch (port s) ''DELETE'' (''/api/download/clear/'' @ downloadId p) None])
      else if status p = ''cancelled'' then
        (s\<lparr>activeDownloads := set_delete (downloadId p) (activeDownloads s)\<rparr>,
         [Fetch (port s) ''DELETE'' (''/api/download/clear/'' @ downloadId p) None])
      else (s, [Emit (Progress p)]))"

fun processProgressList ::
  "PythonBridge \<Rightarrow> DownloadProgress list \<Rightarrow> PythonBridge \<times> effect list" where
  "processProgressList s [] = (s, [])"
| "processProgressList s (p # ps) =
     (let (s1, e1) = handleProgress s p;
          (s2, e2) = processProgressList s1 ps
      in (s2, e1 @ e2))"

text \<open>
  One firing of the interval callback (lines 236-265). A rejected \<open>fetch\<close>, a response
  that is not \<open>ok\<close> and a body that does not parse all leave the fields as they are.
\<close>

definition pollTick ::
  "PythonBridge \<Rightarrow> DownloadProgress list fetch_result \<Rightarrow> PythonBridge \<times> effect list" where
  "pollTick s net =
     (if \<not> ready s \<or> activeDownloads s = [] then (s, [])
      else
        (case net of
           Rejected _ \<Rightarrow> (s, [Fetch (port s) ''GET'' ''/api/download/progress'' None])
         | Resolved r \<Rightarrow>
             if ok r then
               (case json r of
                  None \<Rightarrow> (s, [Fetch (port s) ''GET'' ''/api/download/progress'' None])
                | Some d \<Rightarrow>
                    (let (s', effs) = processProgressList s (data_value d)
                     in (s', Fetch (port s) ''GET'' ''/api/download/progress'' None # effs)))
             else (s, [Fetch (port s) ''GET'' ''/api/download/progress'' None])))"

text \<open>The timer fires again and again: one \<open>pollTick\<close> for each answer of the worker.\<close>

fun pollTicks ::
  "PythonBridge \<Rightarrow> DownloadProgress list fetch_result list \<Rightarrow> PythonBridge \<times> effect list" where
  "pollTicks s [] = (s, [])"
| "pollTicks s (net # nets) =
     (let (s1, e1) = pollTick s net;
          (s2, e2) = pollTicks s1 nets
      in (s2, e1 @ e2))"

text \<open>
  The push model of the other version of the file (\<open>ws.onmessage\<close>, lines 770-783):
  \<open>None\<close> is a message that \<open>JSON.parse\<close> rejects. That version has no tracked set.
\<close>

definition ws_onmessage :: "DownloadProgress option \<Rightarrow> effect list" where
  "ws_onmessage m =
     (case m of
        None \<Rightarrow> []
      | Some d \<Rightarrow>
          if status d = ''complete'' then [Emit (Complete d)]
          else if status d = ''error'' then [Emit (Error d)]
          else [Emit (Progress d)])"

text \<open>What the claims count: the events of a trace, and the terminal ones of one job.\<close>

definition is_terminal_status :: "string \<Rightarrow> bool" where
  "is_terminal_status st = (st = ''complete'' \<or> st = ''error'' \<or> st = ''cancelled'')"

fun terminal_event_of :: "string \<Rightarrow> effect \<Rightarrow> bool" where
  "terminal_event_of j (Emit (Complete p)) = (downloadId p = j)"
| "terminal_event_of j (Emit (Error p)) = (downloadId p = j)"
| "terminal_event_of j _ = False"

fun event_of :: "string \<Rightarrow> effect \<Rightarrow> bool" where
  "event_of j (Emit (Complete p)) = (downloadId p = j)"
| "event_of j (Emit (Error p)) = (downloadId p = j)"
| "event_of j (Emit (Progress p)) = (downloadId p = j)"
| "event_of j _ = False"

definition reported_terminal :: "string \<Rightarrow> DownloadProgress \<Rightarrow> bool" where
  "reported_terminal j p = (downloadId p = j \<and> (status p = ''complete'' \<or> status p = ''error''))"

text \<open>The records a sequence of answers carries in bodies that are \<open>ok\<close> and parse.\<close>

fun records_of :: "DownloadProgress list fetch_result \<Rightarrow> DownloadProgress list" where
  "records_of (Rejected _) = []"
| "records_of (Resolved r) =
     (if ok r then (case json r of None \<Rightarrow> [] | Some d \<Rightarrow> data_value d) else [])"

section \<open>Process lifecycle\<close>

subsection \<open>Stream and process callbacks registered by start\<close>

definition push_limited :: "string \<Rightarrow> string list \<Rightarrow> string list" where
  "push_limited x xs = (let ys = xs @ [x] in if length ys > 100 then tl ys else ys)"

definition on_stdout :: "PythonBridge \<Rightarrow> string \<Rightarrow> PythonBridge" where
  "on_stdout s out = s\<lparr>outputBuffer := push_limited out (outputBuffer s)\<rparr>"

definition on_stderr :: "PythonBridge \<Rightarrow> string \<Rightarrow> PythonBridge" where
  "on_stderr s out =
     s\<lparr>lastError := out, outputBuffer := push_limited (''[ERROR] '' @ out) (outputBuffer s)\<rparr>"

definition on_error :: "PythonBridge \<Rightarrow> string \<Rightarrow> PythonBridge \<times> effect list" where
  "on_error s m =
     (s\<lparr>lastError := m, ready := False, starting := False\<rparr>,
      [Emit (Status False (Some (''Failed to start backend: '' @ m)))])"

text \<open>
  The \<open>exit\<close> callback (lines 100-137); \<open>code\<close> is \<open>None\<close> for JavaScript's \<open>null\<close> (the
  child was ended by a signal). The callback does not assign \<open>this.process\<close>.
  \<open>retryCount\<close> has just been incremented where the delay is computed, so the
  subtraction in the exponent never truncates.
\<close>

definition on_exit :: "PythonBridge \<Rightarrow> int option \<Rightarrow> PythonBridge \<times> effect list" where
  "on_exit s code =
     (let s1 = s\<lparr>ready := False, starting := False\<rparr>;
          (s2, effs) = stopPolling s1
      in if shouldRestart s2 \<and> code \<noteq> Some 0 \<and> code \<noteq> None then
           (let s3 = s2\<lparr>retryCount := retryCount s2 + 1\<rparr>
            in if retryCount s3 \<le> maxRetries then
                 (s3, effs @
                   [Emit (Status False (Some (''Backend crashed. Retrying ('' @ show_nat (retryCount s3)
                      @ ''/'' @ show_nat maxRetries @ '')...''))),
                    SetTimeout RestartCb (min (2000 * 2 ^ (retryCount s3 - 1)) 16000)])
               else
                 (s3, effs @
                   [Emit (Status False (Some (''Backend failed to start after '' @ show_nat maxRetries
                      @ '' attempts. Last error: '' @ or_else (lastError s3) ''Unknown error'')))]))
         else (s2, effs))"

subsection \<open>Readiness prober\<close>

text \<open>
  \<open>waitForServer\<close> (lines 358-393) looks at the child and then at the health endpoint,
  up to \<open>maxAttempts\<close> times. What it sees at attempt \<open>i\<close> is \<open>obs i\<close>: the value of
  \<open>this.process\<close> at that moment and the outcome of the health \<open>fetch\<close> (a call aborted
  after one second is a rejection). \<open>process_gone\<close> is the test
  \<open>this.process?.killed || this.process?.exitCode !== null\<close>, which is true of a null handle
  since \<open>undefined !== null\<close>.
\<close>

record observation =
  obs_process :: "ChildProcess option"
  obs_health :: "unit fetch_result"

datatype exit_view = ExitUndefined | ExitNull | ExitCode int

definition process_gone :: "ChildProcess option \<Rightarrow> bool" where
  "process_gone p = (case p of None \<Rightarrow> True | Some c \<Rightarrow> killed c \<or> exitCode c \<noteq> None)"

definition view_exitCode :: "ChildProcess option \<Rightarrow> exit_view" where
  "view_exitCode p =
     (case p of
        None \<Rightarrow> ExitUndefined
      | Some c \<Rightarrow> (case exitCode c of None \<Rightarrow> ExitNull | Some n \<Rightarrow> ExitCode n))"

datatype start_error =
    PortAllocation string
  | ExecutableNotFound string
  | CorruptExecutable nat
  | TerminatedDuringStartup exit_view string
  | ReadinessTimeout nat

fun show_exit :: "exit_view \<Rightarrow> string" where
  "show_exit ExitUndefined = ''undefined''"
| "show_exit ExitNull = ''null''"
| "show_exit (ExitCode c) = show_int c"

fun startErrorMessage :: "start_error \<Rightarrow> string" where
  "startErrorMessage (PortAllocation m) = m"
| "startErrorMessage (ExecutableNotFound path) = ''Python executable not found at: '' @ path"
| "startErrorMessage (CorruptExecutable sz) =
     ''Python executable appears corrupt (size: '' @ show_nat sz @ '' bytes, expected > ''
       @ show_nat MIN_EXE_SIZE @ '')''"
| "startErrorMessage (TerminatedDuringStartup code lastErr) =
     ''Python process terminated unexpectedly (exit code: '' @ show_exit code
       @ ''). Last error: '' @ or_else lastErr ''Check logs for details''"
| "startErrorMessage (ReadinessTimeout ms) =
     ''Python server failed to start after '' @ show_nat ms @ ''ms''"

text \<open>
  \<open>waitLoop s obs maxAttempts intervalMs k\<close> is the loop with \<open>k\<close> iterations left, that
  is at \<open>i = maxAttempts - k\<close>.
\<close>

fun waitLoop ::
  "PythonBridge \<Rightarrow> (nat \<Rightarrow> observation) \<Rightarrow> nat \<Rightarrow> nat \<Rightarrow> nat \<Rightarrow> (start_error + unit) \<times> effect list" where
  "waitLoop s obs maxAttempts intervalMs 0 = (Inl (ReadinessTimeout (maxAttempts * intervalMs)), [])"
| "waitLoop s obs maxAttempts intervalMs (Suc k) =
     (let ob = obs (maxAttempts - Suc k) in
      if process_gone (obs_process ob) then
        (Inl (TerminatedDuringStartup (view_exitCode (obs_process ob)) (lastError s)), [])
      else
        (case obs_health ob of
           Resolved r \<Rightarrow>
             if ok r then (Inr (), [Fetch (port s) ''GET'' ''/api/health'' None])
             else (let (res, effs) = waitLoop s obs maxAttempts intervalMs k
                   in (res, Fetch (port s) ''GET'' ''/api/health'' None # effs))
         | Rejected _ \<Rightarrow>
             (let (res, effs) = waitLoop s obs maxAttempts intervalMs k
              in (res, Fetch (port s) ''GET'' ''/api/health'' None # effs))))"

definition waitForServer ::
  "PythonBridge \<Rightarrow> (nat \<Rightarrow> observation) \<Rightarrow> (start_error + unit) \<times> effect list" where
  "waitForServer s obs = waitLoop s obs 60 500 60"

subsection \<open>start\<close>

text \<open>
  What \<open>start\<close> (lines 27-159) asks of its surroundings: the port found by
  \<open>findAvailablePort\<close> (or the message of its rejection), the run mode \<open>is.dev\<close>, the path
  \<open>getPythonCommand\<close> resolved, whether \<open>existsSync\<close> finds it, and its size by \<open>statSync\<close>.
\<close>

record start_env =
  env_port :: "string + nat"
  env_isDev :: bool
  env_pythonPath :: string
  env_exists :: bool
  env_size :: nat

datatype start_phase = AlreadyRunning | Failed start_error | Spawned

text \<open>
  \<open>start_begin\<close> is the function up to and including \<open>spawn\<close> and the registration of
  the callbacks; \<open>start_ready\<close> is lines 140-144, \<open>start_catch\<close> the \<open>catch\<close> block, and
  \<open>start_resume\<close> picks one of them from the result of \<open>await this.waitForServer()\<close>.
\<close>

definition start_begin :: "start_env \<Rightarrow> PythonBridge \<Rightarrow> PythonBridge \<times> effect list \<times> start_phase" where
  "start_begin env s =
     (if starting s \<or> ready s then (s, [], AlreadyRunning)
      else
        (let s1 = s\<lparr>starting := True, shouldRestart := True, outputBuffer := []\<rparr> in
         case env_port env of
           Inl m \<Rightarrow> (s1, [], Failed (PortAllocation m))
         | Inr p \<Rightarrow>
             (let s2 = s1\<lparr>port := p\<rparr> in
              if \<not> env_exists env then (s2, [], Failed (ExecutableNotFound (env_pythonPath env)))
              else if \<not> env_isDev env \<and> env_size env < MIN_EXE_SIZE then
                (s2, [], Failed (CorruptExecutable (env_size env)))
              else
                (s2\<lparr>process := Some \<lparr>killed = False, exitCode = None\<rparr>\<rparr>, [Spawn], Spawned))))"

definition start_ready :: "PythonBridge \<Rightarrow> PythonBridge \<times> effect list \<times> (start_error + unit)" where
  "start_ready s =
     (s\<lparr>ready := True, starting := False, retryCount := 0\<rparr>, [Emit (Status True None)], Inr ())"

definition start_catch ::
  "PythonBridge \<Rightarrow> start_error \<Rightarrow> PythonBridge \<times> effect list \<times> (start_error + unit)" where
  "start_catch s e =
     (s\<lparr>starting := False, ready := False, lastError := startErrorMessage e\<rparr>,
      [Emit (Status False (Some (startErrorMessage e)))], Inl e)"

definition start_resume ::
  "PythonBridge \<Rightarrow> (start_error + unit) \<Rightarrow> PythonBridge \<times> effect list \<times> (start_error + unit)" where
  "start_resume s r = (case r of Inr _ \<Rightarrow> start_ready s | Inl e \<Rightarrow> start_catch s e)"

definition start ::
  "start_env \<Rightarrow> (nat \<Rightarrow> observation) \<Rightarrow> PythonBridge \<Rightarrow> PythonBridge \<times> effect list \<times> (start_error + unit)" where
  "start env obs s =
     (case start_begin env s of
        (s1, effs, AlreadyRunning) \<Rightarrow> (s1, effs, Inr ())
      | (s1, effs, Failed e) \<Rightarrow>
          (let (s2, effs2, out) = start_catch s1 e in (s2, effs @ effs2, out))
      | (s1, effs, Spawned) \<Rightarrow>
          (let (r, effs2) = waitForServer s1 obs;
               (s2, effs3, out) = start_resume s1 r
           in (s2, effs @ effs2 @ effs3, out)))"

subsection \<open>stop\<close>







section \<open>Observations on traces and concrete inputs\<close>

fun is_emit :: "effect \<Rightarrow> bool" where
  "is_emit (Emit _) = True"
| "is_emit _ = False"

fun restart_delays :: "effect list \<Rightarrow> nat list" where
  "restart_delays [] = []"
| "restart_delays (SetTimeout RestartCb d # es) = d # restart_delays es"
| "restart_delays (_ # es) = restart_delays es"

fun status_events :: "effect list \<Rightarrow> (bool \<times> string option) list" where
  "status_events [] = []"
| "status_events (Emit (Status r e) # es) = (r, e) # status_events es"
| "status_events (_ # es) = status_events es"

text \<open>The two messages of the exit callback.\<close>

definition retrying_notice :: "nat \<Rightarrow> string" where
  "retrying_notice n =
     ''Backend crashed. Retrying ('' @ show_nat n @ ''/'' @ show_nat maxRetries @ '')...''"

definition giving_up_notice :: "string \<Rightarrow> string" where
  "giving_up_notice lastErr =
     ''Backend failed to start after '' @ show_nat maxRetries
       @ '' attempts. Last error: '' @ or_else lastErr ''Unknown error''"

text \<open>
  The terminal failure notice of the exit callback, told from the other status events
  by how its message starts.
\<close>

definition is_giving_up :: "effect \<Rightarrow> bool" where
  "is_giving_up x =
     (case x of
        Emit (Status r (Some m)) \<Rightarrow> \<not> r \<and> take 14 m = ''Backend failed''
      | _ \<Rightarrow> False)"

text \<open>What one attempt of the readiness prober can see.\<close>

definition health_ok :: "unit fetch_result \<Rightarrow> bool" where
  "health_ok h = (case h of Rejected _ \<Rightarrow> False | Resolved r \<Rightarrow> ok r)"

definition alive_not_ready :: "observation \<Rightarrow> bool" where
  "alive_not_ready ob = (\<not> process_gone (obs_process ob) \<and> \<not> health_ok (obs_health ob))"

definition alive_ready :: "observation \<Rightarrow> bool" where
  "alive_ready ob = (\<not> process_gone (obs_process ob) \<and> health_ok (obs_health ob))"

definition running :: ChildProcess where
  "running = \<lparr>killed = False, exitCode = None\<rparr>"

subsection \<open>Consecutive failures\<close>

text \<open>
  The worker exits with the nonzero code \<open>c\<close> while the fields are \<open>s\<close>: the exit callback
  runs, and if a \<open>start\<close> was waiting in \<open>waitForServer\<close> (\<open>starting s\<close>), its next attempt
  sees the exit code and its \<open>catch\<close> block runs. That is \<open>after_exit\<close>. In \<open>crash_chain\<close>
  the worker fails again and again with the codes of the list: whenever the exit
  callback has set the restart timer, the timer calls \<open>start\<close>, and the worker that
  \<open>start\<close> spawns is the next to exit, before it was ready. The run ends when no
  restart was set or \<open>start\<close> does not get as far as \<open>spawn\<close>.
\<close>

definition after_exit :: "PythonBridge \<Rightarrow> int \<Rightarrow> PythonBridge \<times> effect list" where
  "after_exit s c =
     (let (s1, e1) = on_exit s (Some c) in
      if starting s then
        (let (s2, e2, r) =
               start_resume s1 (Inl (TerminatedDuringStartup (ExitCode c) (lastError s1)))
         in (s2, e1 @ e2))
      else (s1, e1))"

fun crash_chain :: "start_env \<Rightarrow> PythonBridge \<Rightarrow> int list \<Rightarrow> PythonBridge \<times> effect list" where
  "crash_chain env s [] = (s, [])"
| "crash_chain env s (c # cs) =
     (let (s1, e1) = after_exit s c in
      if restart_delays e1 = [] then (s1, e1)
      else
        (case start_begin env s1 of
           (s2, e2, Spawned) \<Rightarrow>
             (let (s3, e3) = crash_chain env s2 cs in (s3, e1 @ e2 @ e3))
         | (s2, e2, Failed e) \<Rightarrow>
             (let (s3, e3, r) = start_catch s2 e in (s3, e1 @ e2 @ e3))
         | (s2, e2, AlreadyRunning) \<Rightarrow> (s2, e1 @ e2)))"

subsection \<open>Concrete inputs\<close>

text \<open>
  A packaged installation whose executable exists and has the given size; a worker
  that stays alive and never answers its health endpoint; one that answers at the third
  attempt.
\<close>

definition packaged_env :: "nat \<Rightarrow> start_env" where
  "packaged_env sz = \<lparr>env_port = Inr 51000, env_isDev = False,
     env_pythonPath = ''resources/python/yt-helper-backend'', env_exists = True,
     env_size = sz\<rparr>"

definition never_healthy :: "nat \<Rightarrow> observation" where
  "never_healthy i = \<lparr>obs_process = Some running, obs_health = Rejected ''ECONNREFUSED''\<rparr>"

definition healthy_at_third :: "nat \<Rightarrow> observation" where
  "healthy_at_third i =
     \<lparr>obs_process = Some running,
      obs_health = (if i < 2 then Rejected ''ECONNREFUSED''
                    else Resolved (Response True 200 (Some (Data None None ()))))\<rparr>"

text \<open>A bridge that is ready on port 51000, a progress record, a successful listing.\<close>

definition ready_bridge :: PythonBridge where
  "ready_bridge = initial\<lparr>port := 51000, ready := True,
     process := Some \<lparr>killed = False, exitCode = None\<rparr>\<rparr>"

definition job :: "string \<Rightarrow> string \<Rightarrow> DownloadProgress" where
  "job j st = \<lparr>downloadId = j, status = st, progress = 100, speed = None, eta = None,
     filename = None, error = None\<rparr>"

definition listing :: "DownloadProgress list \<Rightarrow> DownloadProgress list fetch_result" where
  "listing ps = Resolved (Response True 200 (Some (Data None None ps)))"

definition download_options :: DownloadOptions where
  "download_options = \<lparr>url = ''https://youtu.be/abc'', outputDir = ''/tmp'', mode = ''video'',
     videoFormat = None, audioFormat = None, quality = None, startTime = None,
     endTime = None\<rparr>"

section \<open>Properties of the request client\<close>

text \<open>
  Claim C5. A call of \<open>request\<close> while the bridge is not ready fails with the not-ready
  error and performs no action at all: its trace is empty, so no \<open>fetch\<close> is issued. The
  same holds of \<open>getVideoInfo\<close>, \<open>startDownload\<close> and \<open>cancelDownload\<close>, which also leave
  every field as it was.
\<close>

theorem request_not_ready_no_io:
  "\<not> ready s \<Longrightarrow>
     request s endpoint method b net = (Inl NotReadyError, []) \<and>
     getVideoInfo s u net1 = (Inl NotReadyError, []) \<and>
     startDownload s opts net2 = (s, [], Inl NotReadyError) \<and>
     cancelDownload s did net3 = (s, [], Inl NotReadyError)"
  by (simp add: request_def getVideoInfo_def startDownload_def startDownload_resume_def
      cancelDownload_def cancelDownload_resume_def)

theorem request_not_ready_no_io_witness:
  "\<not> ready initial \<and>
     request initial ''/api/video/info'' ''POST'' (Some (UrlBody ''u'')) (listing []) =
       (Inl NotReadyError, []) \<and>
     getVideoInfo initial ''u'' (listing []) = (Inl NotReadyError, []) \<and>
     startDownload initial download_options (Rejected ''refused'') =
       (initial, [], Inl NotReadyError) \<and>
     cancelDownload initial ''a'' (listing []) = (initial, [], Inl NotReadyError)"
proof -
  have h: "\<not> ready initial" by (simp add: initial_def)
  show ?thesis
    using h request_not_ready_no_io [OF h, of "''/api/video/info''" "''POST''"
        "Some (UrlBody ''u'')" "listing []" "''u''" "listing []" download_options
        "Rejected ''refused''" "''a''" "listing []"]
    by simp
qed

section \<open>Properties of the job tracker\<close>

subsection \<open>Starting and cancelling\<close>

text \<open>
  Claim C10. \<open>startDownload\<close> is atomic on error. Whenever the start-job call fails,
  \<open>startDownload\<close> fails with the same error and leaves every field as it was, so the
  tracked set has no new entry and no poll timer was stored or set; its only action is
  the \<open>fetch\<close> of the call, if that was sent. The call fails when the bridge is not
  ready, when the \<open>fetch\<close> is rejected, when the body does not parse and when the
  status is not \<open>ok\<close>. In the one remaining case, an \<open>ok\<close> answer whose body parses, the
  returned identifier is added to the tracked set and the poll timer is stored, being
  set unless one was stored already. The continuation after the \<open>await\<close> does nothing
  on an error, whatever the fields are by then.
\<close>

theorem startDownload_atomic_on_error:
  "(\<forall>e effs. request s ''/api/download/start'' ''POST'' (Some (OptionsBody opts)) net = (Inl e, effs) \<longrightarrow>
      startDownload s opts net = (s, effs, Inl e)) \<and>
   (\<forall>e. startDownload_resume s (Inl e) = (s, [], Inl e)) \<and>
   (\<not> ready s \<longrightarrow> startDownload s opts net = (s, [], Inl NotReadyError)) \<and>
   (\<forall>m. ready s \<and> net = Rejected m \<longrightarrow>
      startDownload s opts net =
        (s, [Fetch (port s) ''POST'' ''/api/download/start'' (Some (OptionsBody opts))],
         Inl (FetchFailed m))) \<and>
   (\<forall>r. ready s \<and> net = Resolved r \<and> json r = None \<longrightarrow>
      startDownload s opts net =
        (s, [Fetch (port s) ''POST'' ''/api/download/start'' (Some (OptionsBody opts))],
         Inl JsonParseError)) \<and>
   (\<forall>r d. ready s \<and> net = Resolved r \<and> json r = Some d \<and> \<not> ok r \<longrightarrow>
      (\<exists>m. startDownload s opts net =
        (s, [Fetch (port s) ''POST'' ''/api/download/start'' (Some (OptionsBody opts))],
         Inl (WorkerRequestError m)))) \<and>
   (\<forall>r d. ready s \<and> net = Resolved r \<and> json r = Some d \<and> ok r \<longrightarrow>
      startDownload s opts net =
        (s\<lparr>pollInterval := True,
           activeDownloads := set_add (result_downloadId (data_value d)) (activeDownloads s)\<rparr>,
         Fetch (port s) ''POST'' ''/api/download/start'' (Some (OptionsBody opts))
           # (if pollInterval s then [] else [SetInterval POLL_INTERVAL]),
         Inr (data_value d))) \<and>
   did \<in> set (set_add did (activeDownloads s))"
  by (simp add: startDownload_def startDownload_resume_def request_def startPolling_def
      set_add_def)

theorem startDownload_atomic_on_error_witness:
  "ready ready_bridge \<and>
   startDownload ready_bridge download_options (Rejected ''refused'') =
     (ready_bridge,
      [Fetch 51000 ''POST'' ''/api/download/start'' (Some (OptionsBody download_options))],
      Inl (FetchFailed ''refused'')) \<and>
   startDownload ready_bridge download_options
       (Resolved (Response False 400 (Some (Data (Some ''Invalid URL'') None \<lparr>result_downloadId = []\<rparr>)))) =
     (ready_bridge,
      [Fetch 51000 ''POST'' ''/api/download/start'' (Some (OptionsBody download_options))],
      Inl (WorkerRequestError ''Invalid URL'')) \<and>
   startDownload ready_bridge download_options
       (Resolved (Response True 200 (Some (Data None None \<lparr>result_downloadId = ''a''\<rparr>)))) =
     (ready_bridge\<lparr>pollInterval := True, activeDownloads := [''a'']\<rparr>,
      [Fetch 51000 ''POST'' ''/api/download/start'' (Some (OptionsBody download_options)),
       SetInterval 500],
      Inr \<lparr>result_downloadId = ''a''\<rparr>)"
proof -
  note inst = startDownload_atomic_on_error [of ready_bridge download_options]
  have rdy: "ready ready_bridge"
    by (simp add: ready_bridge_def)
  have port: "port ready_bridge = 51000"
    by (simp add: ready_bridge_def)
  have rejected: "startDownload ready_bridge download_options (Rejected ''refused'') =
     (ready_bridge,
      [Fetch 51000 ''POST'' ''/api/download/start'' (Some (OptionsBody download_options))],
      Inl (FetchFailed ''refused''))"
    using inst [of "Rejected ''refused''"] rdy port by simp
  have "request ready_bridge ''/api/download/start'' ''POST''
       (Some (OptionsBody download_options))
       (Resolved (Response False 400 (Some (Data (Some ''Invalid URL'') None \<lparr>result_downloadId = []\<rparr>)))) =
     (Inl (WorkerRequestError ''Invalid URL''),
      [Fetch 51000 ''POST'' ''/api/download/start'' (Some (OptionsBody download_options))])"
    by (simp add: request_def ready_bridge_def initial_def or_else_def)
  then have refused: "startDownload ready_bridge download_options
       (Resolved (Response False 400 (Some (Data (Some ''Invalid URL'') None \<lparr>result_downloadId = []\<rparr>)))) =
     (ready_bridge,
      [Fetch 51000 ''POST'' ''/api/download/start'' (Some (OptionsBody download_options))],
      Inl (WorkerRequestError ''Invalid URL''))"
    using inst [of "Resolved (Response False 400
        (Some (Data (Some ''Invalid URL'') None \<lparr>result_downloadId = []\<rparr>)))"]
    by simp
  have accepted: "startDownload ready_bridge download_options
       (Resolved (Response True 200 (Some (Data None None \<lparr>result_downloadId = ''a''\<rparr>)))) =
     (ready_bridge\<lparr>pollInterval := True, activeDownloads := [''a'']\<rparr>,
      [Fetch 51000 ''POST'' ''/api/download/start'' (Some (OptionsBody download_options)),
       SetInterval 500],
      Inr \<lparr>result_downloadId = ''a''\<rparr>)"
    using inst [of "Resolved (Response True 200
        (Some (Data None None \<lparr>result_downloadId = ''a''\<rparr>)))"] rdy port
    by (simp add: ready_bridge_def initial_def set_add_def POLL_INTERVAL_def)
  show ?thesis
    apply (rule conjI, rule rdy)
    apply (rule conjI, rule rejected)
    apply (rule conjI, rule refused)
    apply (rule accepted)
    done
qed

text \<open>
  Claim C6, as stated, fails: \<open>cancelDownload\<close> removes the identifier after the \<open>await\<close>
  only, so a cancel call that is rejected, one the worker answers with an error status,
  and one that is not attempted because the bridge is not ready all leave the identifier
  tracked.
\<close>

theorem cancelDownload_failure_keeps_tracking:
  "''a'' \<in> set (activeDownloads (fst (cancelDownload (ready_bridge\<lparr>activeDownloads := [''a'']\<rparr>) ''a''
       (Rejected ''fetch failed'' :: unit fetch_result)))) \<and>
   ''a'' \<in> set (activeDownloads (fst (cancelDownload (ready_bridge\<lparr>activeDownloads := [''a'']\<rparr>) ''a''
       (Resolved (Response False 500 (Some (Data (Some ''boom'') None ()))))))) \<and>
   ''a'' \<in> set (activeDownloads (fst (cancelDownload (initial\<lparr>activeDownloads := [''a'']\<rparr>) ''a''
       (Rejected ''fetch failed'' :: unit fetch_result))))"
  by (simp add: cancelDownload_def cancelDownload_resume_def request_def ready_bridge_def
      initial_def)

text \<open>
  Claim C6, amended. \<open>cancelDownload\<close> sends one cancel call when the bridge is ready and
  none otherwise. The identifier is removed from the tracked set exactly when that call
  succeeds, that is on an \<open>ok\<close> answer whose body parses. When the call fails (the
  \<open>fetch\<close> is rejected, the body does not parse, the status is not \<open>ok\<close>) or is not
  attempted (the bridge is not ready), \<open>cancelDownload\<close> fails with the error of the call
  and every field, the tracked set among them, is as before.
\<close>

theorem cancelDownload_removes_on_success_only:
  "(\<forall>e effs. request s ''/api/download/cancel'' ''POST'' (Some (IdBody did)) net = (Inl e, effs) \<longrightarrow>
      cancelDownload s did net = (s, effs, Inl e)) \<and>
   (\<forall>v effs. request s ''/api/download/cancel'' ''POST'' (Some (IdBody did)) net = (Inr v, effs) \<longrightarrow>
      cancelDownload s did net =
        (s\<lparr>activeDownloads := set_delete did (activeDownloads s)\<rparr>, effs, Inr ())) \<and>
   (\<not> ready s \<longrightarrow> cancelDownload s did net = (s, [], Inl NotReadyError)) \<and>
   (\<forall>m. ready s \<and> net = Rejected m \<longrightarrow>
      cancelDownload s did net =
        (s, [Fetch (port s) ''POST'' ''/api/download/cancel'' (Some (IdBody did))],
         Inl (FetchFailed m))) \<and>
   (\<forall>r. ready s \<and> net = Resolved r \<and> json r = None \<longrightarrow>
      cancelDownload s did net =
        (s, [Fetch (port s) ''POST'' ''/api/download/cancel'' (Some (IdBody did))],
         Inl JsonParseError)) \<and>
   (\<forall>r d. ready s \<and> net = Resolved r \<and> json r = Some d \<and> \<not> ok r \<longrightarrow>
      (\<exists>m. cancelDownload s did net =
        (s, [Fetch (port s) ''POST'' ''/api/download/cancel'' (Some (IdBody did))],
         Inl (WorkerRequestError m)))) \<and>
   (\<forall>r d. ready s \<and> net = Resolved r \<and> json r = Some d \<and> ok r \<longrightarrow>
      cancelDownload s did net =
        (s\<lparr>activeDownloads := set_delete did (activeDownloads s)\<rparr>,
         [Fetch (port s) ''POST'' ''/api/download/cancel'' (Some (IdBody did))], Inr ())) \<and>
   did \<notin> set (set_delete did (activeDownloads s))"
  by (simp add: cancelDownload_def cancelDownload_resume_def request_def set_delete_def)

theorem cancelDownload_removes_on_success_only_witness:
  "ready (ready_bridge\<lparr>activeDownloads := [''a'', ''b'']\<rparr>) \<and>
   cancelDownload (ready_bridge\<lparr>activeDownloads := [''a'', ''b'']\<rparr>) ''a''
       (Rejected ''refused'' :: unit fetch_result) =
     (ready_bridge\<lparr>activeDownloads := [''a'', ''b'']\<rparr>,
      [Fetch 51000 ''POST'' ''/api/download/cancel'' (Some (IdBody ''a''))],
      Inl (FetchFailed ''refused'')) \<and>
   cancelDownload (ready_bridge\<lparr>activeDownloads := [''a'', ''b'']\<rparr>) ''a''
       (Resolved (Response True 200 (Some (Data None None ())))) =
     (ready_bridge\<lparr>activeDownloads := [''b'']\<rparr>,
      [Fetch 51000 ''POST'' ''/api/download/cancel'' (Some (IdBody ''a''))], Inr ())"
proof -
  have rdy: "ready (ready_bridge\<lparr>activeDownloads := [''a'', ''b'']\<rparr>)"
    by (simp add: ready_bridge_def)
  have port: "port (ready_bridge\<lparr>activeDownloads := [''a'', ''b'']\<rparr>) = 51000"
    by (simp add: ready_bridge_def)
  have rejected: "cancelDownload (ready_bridge\<lparr>activeDownloads := [''a'', ''b'']\<rparr>) ''a''
       (Rejected ''refused'' :: unit fetch_result) =
     (ready_bridge\<lparr>activeDownloads := [''a'', ''b'']\<rparr>,
      [Fetch 51000 ''POST'' ''/api/download/cancel'' (Some (IdBody ''a''))],
      Inl (FetchFailed ''refused''))"
    using cancelDownload_removes_on_success_only
      [of "ready_bridge\<lparr>activeDownloads := [''a'', ''b'']\<rparr>" "''a''"
          "Rejected ''refused'' :: unit fetch_result"] rdy port
    by simp
  have accepted: "cancelDownload (ready_bridge\<lparr>activeDownloads := [''a'', ''b'']\<rparr>) ''a''
       (Resolved (Response True 200 (Some (Data None None ())))) =
     (ready_bridge\<lparr>activeDownloads := [''b'']\<rparr>,
      [Fetch 51000 ''POST'' ''/api/download/cancel'' (Some (IdBody ''a''))], Inr ())"
    using cancelDownload_removes_on_success_only
      [of "ready_bridge\<lparr>activeDownloads := [''a'', ''b'']\<rparr>" "''a''"
          "Resolved (Response True 200 (Some (Data None None ())))"] rdy port
    by (simp add: set_delete_def)
  show ?thesis
    apply (rule conjI, rule rdy)
    apply (rule conjI, rule rejected)
    apply (rule accepted)
    done
qed

subsection \<open>The reconciliation loop\<close>

lemma handleProgress_port: "port (fst (handleProgress s p)) = port s"
  by (simp add: handleProgress_def)

lemma handleProgress_tracked:
  "set (activeDownloads (fst (handleProgress s p))) =
     (if is_terminal_status (status p) then set (activeDownloads s) - {downloadId p}
      else set (activeDownloads s))"
  by (auto simp: handleProgress_def is_terminal_status_def set_delete_def)

lemma handleProgress_terminal_count:
  "length (filter (terminal_event_of j) (snd (handleProgress s p))) =
     (if reported_terminal j p then 1 else 0)"
  by (simp add: handleProgress_def reported_terminal_def)

lemma handleProgress_events:
  "Emit ev \<in> set (snd (handleProgress s p)) \<longleftrightarrow>
     (status p = ''complete'' \<and> ev = Complete p) \<or>
     (status p = ''error'' \<and> ev = Error p) \<or>
     (\<not> is_terminal_status (status p) \<and> ev = Progress p)"
  by (auto simp: handleProgress_def is_terminal_status_def)

lemma handleProgress_clear:
  "is_terminal_status (status p) \<Longrightarrow>
     Fetch (port s) ''DELETE'' (''/api/download/clear/'' @ downloadId p) None
       \<in> set (snd (handleProgress s p))"
  by (auto simp: handleProgress_def is_terminal_status_def)

lemma processProgressList_Cons:
  "processProgressList s (p # ps) =
     (fst (processProgressList (fst (handleProgress s p)) ps),
      snd (handleProgress s p) @ snd (processProgressList (fst (handleProgress s p)) ps))"
  by (simp add: split_def Let_def)

lemma pollTicks_Cons:
  "pollTicks s (net # nets) =
     (fst (pollTicks (fst (pollTick s net)) nets),
      snd (pollTick s net) @ snd (pollTicks (fst (pollTick s net)) nets))"
  by (simp add: split_def Let_def)

lemma processProgressList_tracked:
  "set (activeDownloads (fst (processProgressList s ps))) =
     set (activeDownloads s) - {downloadId p |p. p \<in> set ps \<and> is_terminal_status (status p)}"
proof (induction ps arbitrary: s)
  case Nil
  show ?case by simp
next
  case (Cons p ps)
  have "set (activeDownloads (fst (processProgressList s (p # ps)))) =
        set (activeDownloads (fst (handleProgress s p)))
          - {downloadId q |q. q \<in> set ps \<and> is_terminal_status (status q)}"
    unfolding processProgressList_Cons using Cons.IH [of "fst (handleProgress s p)"] by simp
  then show ?case unfolding handleProgress_tracked by auto
qed

lemma processProgressList_terminal_count:
  "length (filter (terminal_event_of j) (snd (processProgressList s ps))) =
     length (filter (reported_terminal j) ps)"
proof (induction ps arbitrary: s)
  case Nil
  show ?case by simp
next
  case (Cons p ps)
  show ?case
    unfolding processProgressList_Cons using Cons.IH [of "fst (handleProgress s p)"]
    by (simp add: handleProgress_terminal_count)
qed

lemma processProgressList_events:
  "Emit ev \<in> set (snd (processProgressList s ps)) \<longleftrightarrow>
     (\<exists>p \<in> set ps. (status p = ''complete'' \<and> ev = Complete p) \<or>
        (status p = ''error'' \<and> ev = Error p) \<or>
        (\<not> is_terminal_status (status p) \<and> ev = Progress p))"
proof (induction ps arbitrary: s)
  case Nil
  show ?case by simp
next
  case (Cons p ps)
  show ?case
    unfolding processProgressList_Cons
    using Cons.IH [of "fst (handleProgress s p)"] handleProgress_events [of ev s p]
    by auto
qed

lemma processProgressList_clear:
  "p \<in> set ps \<Longrightarrow> is_terminal_status (status p) \<Longrightarrow>
     Fetch (port s) ''DELETE'' (''/api/download/clear/'' @ downloadId p) None
       \<in> set (snd (processProgressList s ps))"
proof (induction ps arbitrary: s)
  case Nil
  then show ?case by simp
next
  case (Cons q ps)
  show ?case
  proof (cases "p = q")
    case True
    with Cons.prems show ?thesis
      unfolding processProgressList_Cons using handleProgress_clear [of q s] by simp
  next
    case False
    with Cons.prems have "p \<in> set ps" by simp
    from Cons.IH [OF this Cons.prems(2), of "fst (handleProgress s q)"]
    show ?thesis unfolding processProgressList_Cons by (simp add: handleProgress_port)
  qed
qed

text \<open>
  A firing of the callback that gets past its guard sends one \<open>GET\<close> and then runs the
  loop over the records of the answer, which are none unless the answer is \<open>ok\<close> and
  parses.
\<close>

lemma pollTick_eq:
  "pollTick s net =
     (if \<not> ready s \<or> activeDownloads s = [] then (s, [])
      else (fst (processProgressList s (records_of net)),
            Fetch (port s) ''GET'' ''/api/download/progress'' None
              # snd (processProgressList s (records_of net))))"
proof (cases net)
  case (Rejected m)
  then show ?thesis by (simp add: pollTick_def)
next
  case (Resolved r)
  show ?thesis
  proof (cases "json r")
    case None
    then show ?thesis unfolding Resolved by (simp add: pollTick_def)
  next
    case (Some d)
    then show ?thesis unfolding Resolved by (simp add: pollTick_def split_def Let_def)
  qed
qed

lemma pollTick_terminal_count:
  "length (filter (terminal_event_of j) (snd (pollTick s net))) \<le>
     length (filter (reported_terminal j) (records_of net))"
  unfolding pollTick_eq by (simp add: processProgressList_terminal_count)

lemma pollTicks_terminal_count:
  "length (filter (terminal_event_of j) (snd (pollTicks s nets))) \<le>
     length (filter (reported_terminal j) (concat (map records_of nets)))"
proof (induction nets arbitrary: s)
  case Nil
  show ?case by simp
next
  case (Cons net nets)
  have "length (filter (terminal_event_of j) (snd (pollTicks (fst (pollTick s net)) nets))) \<le>
     length (filter (reported_terminal j) (concat (map records_of nets)))"
    by (rule Cons.IH)
  then show ?case
    unfolding pollTicks_Cons using pollTick_terminal_count [of j s net] by simp
qed

text \<open>
  Claim C2, as stated, fails for the status \<open>cancelled\<close>: the branch of the loop for it
  removes the identifier and sends the clear call, and emits nothing. Here job \<open>a\<close> is
  tracked and reported cancelled; the whole trace of the firing is the two calls.
\<close>

theorem poll_cancelled_emits_nothing:
  "pollTick (ready_bridge\<lparr>activeDownloads := [''a'']\<rparr>) (listing [job ''a'' ''cancelled'']) =
     (ready_bridge\<lparr>activeDownloads := []\<rparr>,
      [Fetch 51000 ''GET'' ''/api/download/progress'' None,
       Fetch 51000 ''DELETE'' ''/api/download/clear/a'' None])"
  by (simp add: pollTick_def handleProgress_def ready_bridge_def initial_def listing_def job_def
      set_delete_def)

text \<open>
  Claim C2, amended. For a record with status complete the loop emits the \<open>complete\<close>
  event, removes the identifier and sends the clear call; for status error it emits the
  \<open>error\<close> event, removes and clears; for status cancelled it removes and clears and emits
  nothing. So when a firing of the poll callback processes a listing, then for every
  record in it with a terminal status the identifier is not in the tracked set
  afterwards and a clear call for it was sent, and \<open>clearDownload\<close> resolves whatever the
  outcome of that call; for complete and for error the matching terminal event was
  emitted, and for cancelled no event carries the record.
\<close>

theorem poll_terminal_record_handling:
  assumes "ready s" and "activeDownloads s \<noteq> []"
    and "p \<in> set ps" and "is_terminal_status (status p)"
    and "pollTick s (Resolved (Response True code (Some (Data e m ps)))) = (s', effs)"
  shows "downloadId p \<notin> set (activeDownloads s') \<and>
     Fetch (port s) ''DELETE'' (''/api/download/clear/'' @ downloadId p) None \<in> set effs \<and>
     clearDownload s (downloadId p) net =
       (Inr (), [Fetch (port s) ''DELETE'' (''/api/download/clear/'' @ downloadId p) None]) \<and>
     (status p = ''complete'' \<longrightarrow> Emit (Complete p) \<in> set effs) \<and>
     (status p = ''error'' \<longrightarrow> Emit (Error p) \<in> set effs) \<and>
     (status p = ''cancelled'' \<longrightarrow>
        Emit (Complete p) \<notin> set effs \<and> Emit (Error p) \<notin> set effs \<and>
        Emit (Progress p) \<notin> set effs) \<and>
     (status p = ''complete'' \<longrightarrow>
        handleProgress t p =
          (t\<lparr>activeDownloads := set_delete (downloadId p) (activeDownloads t)\<rparr>,
           [Emit (Complete p),
            Fetch (port t) ''DELETE'' (''/api/download/clear/'' @ downloadId p) None])) \<and>
     (status p = ''error'' \<longrightarrow>
        handleProgress t p =
          (t\<lparr>activeDownloads := set_delete (downloadId p) (activeDownloads t)\<rparr>,
           [Emit (Error p),
            Fetch (port t) ''DELETE'' (''/api/download/clear/'' @ downloadId p) None])) \<and>
     (status p = ''cancelled'' \<longrightarrow>
        handleProgress t p =
          (t\<lparr>activeDownloads := set_delete (downloadId p) (activeDownloads t)\<rparr>,
           [Fetch (port t) ''DELETE'' (''/api/download/clear/'' @ downloadId p) None]))"
proof -
  have s': "s' = fst (processProgressList s ps)"
    and effs: "effs = Fetch (port s) ''GET'' ''/api/download/progress'' None
                 # snd (processProgressList s ps)"
    using assms(1,2,5) by (simp_all add: pollTick_eq)
  have 1: "downloadId p \<notin> set (activeDownloads s')"
    unfolding s' processProgressList_tracked using assms(3,4) by auto
  have 2: "Fetch (port s) ''DELETE'' (''/api/download/clear/'' @ downloadId p) None \<in> set effs"
    unfolding effs using processProgressList_clear [OF assms(3,4), of s] by simp
  have 3: "clearDownload s (downloadId p) net =
       (Inr (), [Fetch (port s) ''DELETE'' (''/api/download/clear/'' @ downloadId p) None])"
    by (cases net) (simp_all add: clearDownload_def)
  have 4: "status p = ''complete'' \<longrightarrow> Emit (Complete p) \<in> set effs"
    unfolding effs using processProgressList_events [of "Complete p" s ps] assms(3) by auto
  have 5: "status p = ''error'' \<longrightarrow> Emit (Error p) \<in> set effs"
    unfolding effs using processProgressList_events [of "Error p" s ps] assms(3) by auto
  have 6: "status p = ''cancelled'' \<longrightarrow>
        Emit (Complete p) \<notin> set effs \<and> Emit (Error p) \<notin> set effs \<and>
        Emit (Progress p) \<notin> set effs"
    unfolding effs
    using processProgressList_events [of "Complete p" s ps]
      processProgressList_events [of "Error p" s ps]
      processProgressList_events [of "Progress p" s ps]
    by (auto simp: is_terminal_status_def)
  have 7: "status p = ''complete'' \<longrightarrow>
        handleProgress t p =
          (t\<lparr>activeDownloads := set_delete (downloadId p) (activeDownloads t)\<rparr>,
           [Emit (Complete p),
            Fetch (port t) ''DELETE'' (''/api/download/clear/'' @ downloadId p) None])"
    by (simp add: handleProgress_def)
  have 8: "status p = ''error'' \<longrightarrow>
        handleProgress t p =
          (t\<lparr>activeDownloads := set_delete (downloadId p) (activeDownloads t)\<rparr>,
           [Emit (Error p),
            Fetch (port t) ''DELETE'' (''/api/download/clear/'' @ downloadId p) None])"
    by (simp add: handleProgress_def)
  have 9: "status p = ''cancelled'' \<longrightarrow>
        handleProgress t p =
          (t\<lparr>activeDownloads := set_delete (downloadId p) (activeDownloads t)\<rparr>,
           [Fetch (port t) ''DELETE'' (''/api/download/clear/'' @ downloadId p) None])"
    by (simp add: handleProgress_def)
  show ?thesis
    apply (rule conjI, rule 1)
    apply (rule conjI, rule 2)
    apply (rule conjI, rule 3)
    apply (rule conjI, rule 4)
    apply (rule conjI, rule 5)
    apply (rule conjI, rule 6)
    apply (rule conjI, rule 7)
    apply (rule conjI, rule 8)
    apply (rule 9)
    done
qed

theorem poll_terminal_record_handling_witness:
  "ready (ready_bridge\<lparr>activeDownloads := [''a'']\<rparr>) \<and>
   activeDownloads (ready_bridge\<lparr>activeDownloads := [''a'']\<rparr>) \<noteq> [] \<and>
   job ''a'' ''complete'' \<in> set [job ''a'' ''complete''] \<and>
   is_terminal_status (status (job ''a'' ''complete'')) \<and>
   pollTick (ready_bridge\<lparr>activeDownloads := [''a'']\<rparr>)
       (Resolved (Response True 200 (Some (Data None None [job ''a'' ''complete''])))) =
     (ready_bridge\<lparr>activeDownloads := []\<rparr>,
      [Fetch 51000 ''GET'' ''/api/download/progress'' None,
       Emit (Complete (job ''a'' ''complete'')),
       Fetch 51000 ''DELETE'' ''/api/download/clear/a'' None]) \<and>
   status (job ''a'' ''complete'') = ''complete'' \<and>
   downloadId (job ''a'' ''complete'') \<notin> set (activeDownloads (ready_bridge\<lparr>activeDownloads := []\<rparr>)) \<and>
   Emit (Complete (job ''a'' ''complete'')) \<in> set
      [Fetch 51000 ''GET'' ''/api/download/progress'' None,
       Emit (Complete (job ''a'' ''complete'')),
       Fetch 51000 ''DELETE'' ''/api/download/clear/a'' None]"
proof -
  have h1: "ready (ready_bridge\<lparr>activeDownloads := [''a'']\<rparr>)"
    by (simp add: ready_bridge_def)
  have h2: "activeDownloads (ready_bridge\<lparr>activeDownloads := [''a'']\<rparr>) \<noteq> []"
    by simp
  have h3: "job ''a'' ''complete'' \<in> set [job ''a'' ''complete'']"
    by simp
  have h4: "is_terminal_status (status (job ''a'' ''complete''))"
    by (simp add: is_terminal_status_def job_def)
  have h5: "pollTick (ready_bridge\<lparr>activeDownloads := [''a'']\<rparr>)
       (Resolved (Response True 200 (Some (Data None None [job ''a'' ''complete''])))) =
     (ready_bridge\<lparr>activeDownloads := []\<rparr>,
      [Fetch 51000 ''GET'' ''/api/download/progress'' None,
       Emit (Complete (job ''a'' ''complete'')),
       Fetch 51000 ''DELETE'' ''/api/download/clear/a'' None])"
    by (simp add: pollTick_def handleProgress_def ready_bridge_def initial_def job_def
        set_delete_def)
  have h6: "status (job ''a'' ''complete'') = ''complete''"
    by (simp add: job_def)
  note concl = poll_terminal_record_handling [OF h1 h2 h3 h4 h5,
      of "Rejected ''x'' :: unit fetch_result" initial]
  have c1: "downloadId (job ''a'' ''complete'') \<notin> set (activeDownloads (ready_bridge\<lparr>activeDownloads := []\<rparr>))"
    using concl by (rule conjunct1)
  have c2: "Emit (Complete (job ''a'' ''complete'')) \<in> set
      [Fetch 51000 ''GET'' ''/api/download/progress'' None,
       Emit (Complete (job ''a'' ''complete'')),
       Fetch 51000 ''DELETE'' ''/api/download/clear/a'' None]"
    using concl h6 by simp
  show ?thesis
    apply (rule conjI, rule h1)
    apply (rule conjI, rule h2)
    apply (rule conjI, rule h3)
    apply (rule conjI, rule h4)
    apply (rule conjI, rule h5)
    apply (rule conjI, rule h6)
    apply (rule conjI, rule c1)
    apply (rule c2)
    done
qed

text \<open>
  Claim C1, as stated, fails. The loop never looks a record up in the tracked set. Jobs
  \<open>a\<close> and \<open>b\<close> are tracked; the worker lists \<open>a\<close> as complete and \<open>b\<close> as downloading,
  and lists the same again at the next firing (its record of \<open>a\<close> is still there, the
  clear call being sent without waiting and its failure ignored). After the first firing
  \<open>a\<close> is no longer tracked, yet the second firing emits \<open>complete\<close> for \<open>a\<close> again: two
  terminal events for one identifier.
\<close>

theorem poll_repeats_terminal_event:
  "''a'' \<notin> set (activeDownloads (fst (pollTick (ready_bridge\<lparr>activeDownloads := [''a'', ''b'']\<rparr>)
       (listing [job ''a'' ''complete'', job ''b'' ''downloading''])))) \<and>
   Emit (Complete (job ''a'' ''complete'')) \<in> set (snd (pollTick
       (fst (pollTick (ready_bridge\<lparr>activeDownloads := [''a'', ''b'']\<rparr>)
          (listing [job ''a'' ''complete'', job ''b'' ''downloading''])))
       (listing [job ''a'' ''complete'', job ''b'' ''downloading'']))) \<and>
   length (filter (terminal_event_of ''a'')
     (snd (pollTicks (ready_bridge\<lparr>activeDownloads := [''a'', ''b'']\<rparr>)
       [listing [job ''a'' ''complete'', job ''b'' ''downloading''],
        listing [job ''a'' ''complete'', job ''b'' ''downloading'']]))) = 2"
  by (simp add: pollTick_def handleProgress_def ready_bridge_def initial_def listing_def job_def
      set_delete_def)

text \<open>
  Claim C1, amended. One pass of the loop emits exactly one terminal event (complete or
  error) of a job for each complete or error record of that job in the listing, and
  none for a cancelled one; over any number of firings the terminal events of a job are
  at most as many as the complete and error records the worker listed for it. So at
  most one terminal event of a job reaches the host as long as the worker lists at most
  one such record for it. After a pass, no identifier that had a record with a terminal
  status in the listing is in the tracked set. Whether a record's identifier is tracked
  plays no part.
\<close>

theorem poll_terminal_events_bounded:
  "length (filter (terminal_event_of j) (snd (processProgressList s ps))) =
     length (filter (reported_terminal j) ps) \<and>
   length (filter (terminal_event_of j) (snd (pollTicks s nets))) \<le>
     length (filter (reported_terminal j) (concat (map records_of nets))) \<and>
   (length (filter (reported_terminal j) (concat (map records_of nets))) \<le> 1 \<longrightarrow>
      length (filter (terminal_event_of j) (snd (pollTicks s nets))) \<le> 1) \<and>
   (\<forall>p \<in> set ps. is_terminal_status (status p) \<longrightarrow>
      downloadId p \<notin> set (activeDownloads (fst (processProgressList s ps))))"
proof -
  have 1: "length (filter (terminal_event_of j) (snd (processProgressList s ps))) =
     length (filter (reported_terminal j) ps)"
    by (rule processProgressList_terminal_count)
  have 2: "length (filter (terminal_event_of j) (snd (pollTicks s nets))) \<le>
     length (filter (reported_terminal j) (concat (map records_of nets)))"
    by (rule pollTicks_terminal_count)
  have 3: "length (filter (reported_terminal j) (concat (map records_of nets))) \<le> 1 \<longrightarrow>
      length (filter (terminal_event_of j) (snd (pollTicks s nets))) \<le> 1"
    using 2 by linarith
  have 4: "\<forall>p \<in> set ps. is_terminal_status (status p) \<longrightarrow>
      downloadId p \<notin> set (activeDownloads (fst (processProgressList s ps)))"
    unfolding processProgressList_tracked by auto
  show ?thesis
    apply (rule conjI, rule 1)
    apply (rule conjI, rule 2)
    apply (rule conjI, rule 3)
    apply (rule 4)
    done
qed

theorem poll_terminal_events_bounded_witness:
  "length (filter (reported_terminal ''a'')
      (concat (map records_of [listing [job ''a'' ''complete'', job ''b'' ''downloading'']]))) \<le> 1 \<and>
   length (filter (terminal_event_of ''a'')
      (snd (pollTicks (ready_bridge\<lparr>activeDownloads := [''a'', ''b'']\<rparr>)
        [listing [job ''a'' ''complete'', job ''b'' ''downloading'']]))) \<le> 1 \<and>
   job ''a'' ''complete'' \<in> set [job ''a'' ''complete'', job ''b'' ''downloading''] \<and>
   is_terminal_status (status (job ''a'' ''complete'')) \<and>
   downloadId (job ''a'' ''complete'') \<notin> set (activeDownloads (fst (processProgressList
      (ready_bridge\<lparr>activeDownloads := [''a'', ''b'']\<rparr>)
      [job ''a'' ''complete'', job ''b'' ''downloading''])))"
proof -
  note inst = poll_terminal_events_bounded [of "''a''" "ready_bridge\<lparr>activeDownloads := [''a'', ''b'']\<rparr>"
      "[job ''a'' ''complete'', job ''b'' ''downloading'']"
      "[listing [job ''a'' ''complete'', job ''b'' ''downloading'']]"]
  have h1: "length (filter (reported_terminal ''a'')
      (concat (map records_of [listing [job ''a'' ''complete'', job ''b'' ''downloading'']]))) \<le> 1"
    by (simp add: listing_def reported_terminal_def job_def)
  have h2: "job ''a'' ''complete'' \<in> set [job ''a'' ''complete'', job ''b'' ''downloading'']"
    by simp
  have h3: "is_terminal_status (status (job ''a'' ''complete''))"
    by (simp add: is_terminal_status_def job_def)
  have c1: "length (filter (terminal_event_of ''a'')
      (snd (pollTicks (ready_bridge\<lparr>activeDownloads := [''a'', ''b'']\<rparr>)
        [listing [job ''a'' ''complete'', job ''b'' ''downloading'']]))) \<le> 1"
    using inst h1 by (elim conjE) (erule (1) mp)
  have c2: "downloadId (job ''a'' ''complete'') \<notin> set (activeDownloads (fst (processProgressList
      (ready_bridge\<lparr>activeDownloads := [''a'', ''b'']\<rparr>)
      [job ''a'' ''complete'', job ''b'' ''downloading''])))"
    using inst h2 h3 by (elim conjE) (erule ballE, erule (1) mp, erule notE, assumption)
  show ?thesis
    apply (rule conjI, rule h1)
    apply (rule conjI, rule c1)
    apply (rule conjI, rule h2)
    apply (rule conjI, rule h3)
    apply (rule c2)
    done
qed

section \<open>Properties of the process lifecycle\<close>

lemma restart_delays_append: "restart_delays (xs @ ys) = restart_delays xs @ restart_delays ys"
  by (induction xs rule: restart_delays.induct) simp_all

lemma status_events_append: "status_events (xs @ ys) = status_events xs @ status_events ys"
  by (induction xs rule: status_events.induct) simp_all

lemma waitLoop_unready:
  "alive_not_ready (obs (m - Suc k)) \<Longrightarrow>
     waitLoop s obs m iv (Suc k) =
       (fst (waitLoop s obs m iv k), Fetch (port s) ''GET'' ''/api/health'' None # snd (waitLoop s obs m iv k))"
  by (cases "obs_health (obs (m - Suc k))")
    (simp_all add: alive_not_ready_def health_ok_def split_def Let_def)

lemma waitLoop_ready:
  "alive_ready (obs (m - Suc k)) \<Longrightarrow>
     waitLoop s obs m iv (Suc k) = (Inr (), [Fetch (port s) ''GET'' ''/api/health'' None])"
  by (cases "obs_health (obs (m - Suc k))")
    (simp_all add: alive_ready_def health_ok_def split_def Let_def)

lemma waitLoop_gone:
  "process_gone (obs_process (obs (m - Suc k))) \<Longrightarrow>
     waitLoop s obs m iv (Suc k) =
       (Inl (TerminatedDuringStartup (view_exitCode (obs_process (obs (m - Suc k)))) (lastError s)), [])"
  by (simp add: Let_def)

lemma waitLoop_timeout:
  "k \<le> m \<Longrightarrow> (\<forall>i. m - k \<le> i \<and> i < m \<longrightarrow> alive_not_ready (obs i)) \<Longrightarrow>
     waitLoop s obs m iv k =
       (Inl (ReadinessTimeout (m * iv)), replicate k (Fetch (port s) ''GET'' ''/api/health'' None))"
proof (induction k)
  case 0
  show ?case by simp
next
  case (Suc k)
  have a: "alive_not_ready (obs (m - Suc k))" using Suc.prems by simp
  have "waitLoop s obs m iv k =
       (Inl (ReadinessTimeout (m * iv)), replicate k (Fetch (port s) ''GET'' ''/api/health'' None))"
    using Suc.prems by (intro Suc.IH) auto
  then show ?case
    using waitLoop_unready [where obs = obs and m = m and k = k and s = s and iv = iv] a by simp
qed

lemma waitLoop_success:
  "k \<le> m \<Longrightarrow> m - k \<le> j \<Longrightarrow> j < m \<Longrightarrow>
   (\<forall>i. m - k \<le> i \<and> i < j \<longrightarrow> alive_not_ready (obs i)) \<Longrightarrow> alive_ready (obs j) \<Longrightarrow>
     waitLoop s obs m iv k =
       (Inr (), replicate (Suc j - (m - k)) (Fetch (port s) ''GET'' ''/api/health'' None))"
proof (induction k)
  case 0
  then show ?case by simp
next
  case (Suc k)
  show ?case
  proof (cases "j = m - Suc k")
    case True
    with Suc.prems show ?thesis
      using waitLoop_ready [where obs = obs and m = m and k = k and s = s and iv = iv] by simp
  next
    case False
    with Suc.prems have lt: "m - Suc k < j" by simp
    with Suc.prems have a: "alive_not_ready (obs (m - Suc k))" by simp
    have "waitLoop s obs m iv k =
       (Inr (), replicate (Suc j - (m - k)) (Fetch (port s) ''GET'' ''/api/health'' None))"
      using Suc.prems lt by (intro Suc.IH) auto
    moreover have "Suc (Suc j - (m - k)) = Suc j - (m - Suc k)"
      using Suc.prems lt by arith
    ultimately show ?thesis
      using waitLoop_unready [where obs = obs and m = m and k = k and s = s and iv = iv] a
      by (simp flip: replicate_Suc)
  qed
qed

lemma waitLoop_no_restart: "restart_delays (snd (waitLoop s obs m iv k)) = []"
  by (induction k) (auto simp: Let_def split_def split: fetch_result.splits)

lemma waitLoop_no_status: "status_events (snd (waitLoop s obs m iv k)) = []"
  by (induction k) (auto simp: Let_def split_def split: fetch_result.splits)


lemma stopPolling_effects:
  "restart_delays (snd (stopPolling s)) = [] \<and> status_events (snd (stopPolling s)) = [] \<and>
   filter is_giving_up (snd (stopPolling s)) = []"
  by (simp add: stopPolling_def is_giving_up_def)

lemma stopPolling_fields:
  "retryCount (fst (stopPolling s)) = retryCount s \<and>
   shouldRestart (fst (stopPolling s)) = shouldRestart s \<and>
   lastError (fst (stopPolling s)) = lastError s \<and>
   ready (fst (stopPolling s)) = ready s \<and>
   starting (fst (stopPolling s)) = starting s \<and>
   process (fst (stopPolling s)) = process s"
  by (simp add: stopPolling_def)

text \<open>The exit callback, branch by branch.\<close>

lemma on_exit_eq:
  "on_exit s code =
     (let s2 = fst (stopPolling (s\<lparr>ready := False, starting := False\<rparr>));
          effs = snd (stopPolling (s\<lparr>ready := False, starting := False\<rparr>))
      in if shouldRestart s \<and> code \<noteq> Some 0 \<and> code \<noteq> None then
           if retryCount s < maxRetries then
             (s2\<lparr>retryCount := retryCount s + 1\<rparr>,
              effs @ [Emit (Status False (Some (retrying_notice (retryCount s + 1)))),
                      SetTimeout RestartCb (min (2000 * 2 ^ retryCount s) 16000)])
           else
             (s2\<lparr>retryCount := retryCount s + 1\<rparr>,
              effs @ [Emit (Status False (Some (giving_up_notice (lastError s))))])
         else (s2, effs))"
  by (cases code)
    (auto simp: on_exit_def Let_def split_def stopPolling_fields retrying_notice_def
      giving_up_notice_def)

lemma is_giving_up_notices:
  "\<not> is_giving_up (Emit (Status False (Some (retrying_notice n))))"
  "is_giving_up (Emit (Status False (Some (giving_up_notice l))))"
  "\<not> is_giving_up (Emit (Status False (Some (startErrorMessage (TerminatedDuringStartup v l)))))"
  "\<not> is_giving_up (SetTimeout cb d)"
  "\<not> is_giving_up Spawn"
  by (simp_all add: is_giving_up_def retrying_notice_def giving_up_notice_def)

lemma on_exit_retry:
  assumes "shouldRestart s" and "c \<noteq> 0" and "retryCount s < maxRetries"
  shows "retryCount (fst (on_exit s (Some c))) = retryCount s + 1"
    and "restart_delays (snd (on_exit s (Some c))) = [min (2000 * 2 ^ retryCount s) 16000]"
    and "status_events (snd (on_exit s (Some c))) = [(False, Some (retrying_notice (retryCount s + 1)))]"
    and "filter is_giving_up (snd (on_exit s (Some c))) = []"
  using assms
  by (simp_all add: on_exit_eq Let_def restart_delays_append status_events_append
      stopPolling_effects stopPolling_fields is_giving_up_notices)

lemma on_exit_give_up:
  assumes "shouldRestart s" and "c \<noteq> 0" and "maxRetries \<le> retryCount s"
  shows "retryCount (fst (on_exit s (Some c))) = retryCount s + 1"
    and "restart_delays (snd (on_exit s (Some c))) = []"
    and "status_events (snd (on_exit s (Some c))) = [(False, Some (giving_up_notice (lastError s)))]"
    and "filter is_giving_up (snd (on_exit s (Some c))) =
           [Emit (Status False (Some (giving_up_notice (lastError s))))]"
  using assms
  by (simp_all add: on_exit_eq Let_def restart_delays_append status_events_append
      stopPolling_effects stopPolling_fields is_giving_up_notices)

lemma on_exit_fields:
  "shouldRestart (fst (on_exit s code)) = shouldRestart s \<and>
   lastError (fst (on_exit s code)) = lastError s \<and>
   process (fst (on_exit s code)) = process s \<and>
   \<not> ready (fst (on_exit s code)) \<and> \<not> starting (fst (on_exit s code))"
  by (simp add: on_exit_eq Let_def stopPolling_fields)

lemma on_exit_restart_iff:
  "restart_delays (snd (on_exit s code)) \<noteq> [] \<longleftrightarrow>
     shouldRestart s \<and> code \<noteq> None \<and> code \<noteq> Some 0 \<and> retryCount s < maxRetries"
  by (auto simp: on_exit_eq Let_def restart_delays_append stopPolling_effects)

lemma start_begin_spawn:
  assumes "\<not> starting s" and "\<not> ready s"
    and "env_port env = Inr p" and "env_exists env"
    and "env_isDev env \<or> MIN_EXE_SIZE \<le> env_size env"
  shows "start_begin env s =
     (s\<lparr>starting := True, shouldRestart := True, outputBuffer := [], port := p,
        process := Some running\<rparr>, [Spawn], Spawned)"
  using assms by (auto simp: start_begin_def running_def)


lemma after_exit_retry:
  assumes "shouldRestart s" and "c \<noteq> 0" and "retryCount s < maxRetries"
  shows "retryCount (fst (after_exit s c)) = retryCount s + 1"
    and "shouldRestart (fst (after_exit s c))"
    and "\<not> starting (fst (after_exit s c))" and "\<not> ready (fst (after_exit s c))"
    and "restart_delays (snd (after_exit s c)) = [min (2000 * 2 ^ retryCount s) 16000]"
    and "filter is_giving_up (snd (after_exit s c)) = []"
  using assms on_exit_retry [OF assms] on_exit_fields [of s "Some c"]
  by (simp_all add: after_exit_def split_def Let_def start_resume_def start_catch_def
      restart_delays_append is_giving_up_def)

lemma after_exit_give_up:
  assumes "shouldRestart s" and "c \<noteq> 0" and "maxRetries \<le> retryCount s"
  shows "restart_delays (snd (after_exit s c)) = []"
    and "filter is_giving_up (snd (after_exit s c)) =
           [Emit (Status False (Some (giving_up_notice (lastError s))))]"
  using assms on_exit_give_up [OF assms]
  by (simp_all add: after_exit_def split_def Let_def start_resume_def start_catch_def
      restart_delays_append is_giving_up_def)

text \<open>One failure that is retried, and the failure after the last retry.\<close>

lemma crash_chain_retry:
  assumes "shouldRestart s" and "c \<noteq> 0" and "retryCount s < maxRetries"
    and "env_port env = Inr p" and "env_exists env"
    and "env_isDev env \<or> MIN_EXE_SIZE \<le> env_size env"
  shows "\<exists>s' e. crash_chain env s (c # cs) =
           (fst (crash_chain env s' cs), e @ snd (crash_chain env s' cs)) \<and>
         shouldRestart s' \<and> starting s' \<and> retryCount s' = retryCount s + 1 \<and>
         restart_delays e = [min (2000 * 2 ^ retryCount s) 16000] \<and>
         filter is_giving_up e = []"
proof -
  define s1 where "s1 = fst (after_exit s c)"
  define e1 where "e1 = snd (after_exit s c)"
  define s2 where "s2 = s1\<lparr>starting := True, shouldRestart := True, outputBuffer := [], port := p,
        process := Some running\<rparr>"
  note ae = after_exit_retry [OF assms(1-3), folded s1_def e1_def]
  have spawn: "start_begin env s1 = (s2, [Spawn], Spawned)"
    unfolding s2_def using start_begin_spawn [OF ae(3,4) assms(4-6)] .
  have "crash_chain env s (c # cs) =
           (fst (crash_chain env s2 cs), (e1 @ [Spawn]) @ snd (crash_chain env s2 cs))"
    using ae(5) spawn
    by (simp add: split_def Let_def s1_def [symmetric] e1_def [symmetric])
  moreover have "shouldRestart s2 \<and> starting s2 \<and> retryCount s2 = retryCount s + 1"
    unfolding s2_def using ae(1) by simp
  moreover have "restart_delays (e1 @ [Spawn]) = [min (2000 * 2 ^ retryCount s) 16000]"
    using ae(5) by (simp add: restart_delays_append)
  moreover have "filter is_giving_up (e1 @ [Spawn]) = []"
    using ae(6) by (simp add: is_giving_up_def)
  ultimately show ?thesis by blast
qed

lemma crash_chain_give_up:
  assumes "shouldRestart s" and "c \<noteq> 0" and "maxRetries \<le> retryCount s"
  shows "restart_delays (snd (crash_chain env s (c # cs))) = [] \<and>
         filter is_giving_up (snd (crash_chain env s (c # cs))) =
           [Emit (Status False (Some (giving_up_notice (lastError s))))]"
  using after_exit_give_up [OF assms] by (simp add: split_def Let_def)

lemma crash_chain_four:
  assumes "shouldRestart s" and "retryCount s = 0"
    and "c1 \<noteq> 0" and "c2 \<noteq> 0" and "c3 \<noteq> 0" and "c4 \<noteq> 0"
    and "env_port env = Inr p" and "env_exists env"
    and "env_isDev env \<or> MIN_EXE_SIZE \<le> env_size env"
  shows "restart_delays (snd (crash_chain env s (c1 # c2 # c3 # c4 # cs))) = [2000, 4000, 8000] \<and>
         length (filter is_giving_up (snd (crash_chain env s (c1 # c2 # c3 # c4 # cs)))) = 1"
proof -
  have m: "maxRetries = 3" by (simp add: maxRetries_def)
  obtain sa ea where a: "crash_chain env s (c1 # c2 # c3 # c4 # cs) =
        (fst (crash_chain env sa (c2 # c3 # c4 # cs)), ea @ snd (crash_chain env sa (c2 # c3 # c4 # cs)))"
      "shouldRestart sa" "retryCount sa = 1" "restart_delays ea = [2000]" "filter is_giving_up ea = []"
    using crash_chain_retry [OF assms(1,3) _ assms(7-9), of "c2 # c3 # c4 # cs"] assms(2) m
    by (auto simp del: crash_chain.simps)
  obtain sb eb where b: "crash_chain env sa (c2 # c3 # c4 # cs) =
        (fst (crash_chain env sb (c3 # c4 # cs)), eb @ snd (crash_chain env sb (c3 # c4 # cs)))"
      "shouldRestart sb" "retryCount sb = 2" "restart_delays eb = [4000]" "filter is_giving_up eb = []"
    using crash_chain_retry [OF a(2) assms(4) _ assms(7-9), of "c3 # c4 # cs"] a(3) m
    by (auto simp del: crash_chain.simps)
  obtain sc ec where c: "crash_chain env sb (c3 # c4 # cs) =
        (fst (crash_chain env sc (c4 # cs)), ec @ snd (crash_chain env sc (c4 # cs)))"
      "shouldRestart sc" "retryCount sc = 3" "restart_delays ec = [8000]" "filter is_giving_up ec = []"
    using crash_chain_retry [OF b(2) assms(5) _ assms(7-9), of "c4 # cs"] b(3) m
    by (auto simp del: crash_chain.simps)
  have d: "restart_delays (snd (crash_chain env sc (c4 # cs))) = []"
      "length (filter is_giving_up (snd (crash_chain env sc (c4 # cs)))) = 1"
    using crash_chain_give_up [OF c(2) assms(6), of env cs] c(3) m
    by (simp_all del: crash_chain.simps)
  have "snd (crash_chain env s (c1 # c2 # c3 # c4 # cs)) =
          ea @ eb @ ec @ snd (crash_chain env sc (c4 # cs))"
    using a(1) b(1) c(1) by (simp del: crash_chain.simps)
  then show ?thesis
    using a(4,5) b(4,5) c(4,5) d by (simp add: restart_delays_append del: crash_chain.simps)
qed

lemma show_nat_digit: "n < 10 \<Longrightarrow> show_nat n = [''0123456789'' ! n]"
  by (subst show_nat.simps) simp

lemma show_nat_step:
  "\<not> n < 10 \<Longrightarrow> show_nat n = show_nat (n div 10) @ [''0123456789'' ! (n mod 10)]"
  by (subst show_nat.simps) simp

lemma show_nat_1: "show_nat (Suc 0) = ''1''"
  by (subst show_nat.simps) simp

lemma show_nat_small:
  "show_nat 3 = ''3''" "show_nat 30000 = ''30000''"
  by (simp_all add: show_nat_digit show_nat_step)

lemma notices:
  "retrying_notice (Suc 0) = ''Backend crashed. Retrying (1/3)...''"
  "giving_up_notice l =
     ''Backend failed to start after 3 attempts. Last error: '' @ (if l = [] then ''Unknown error'' else l)"
  by (simp_all add: retrying_notice_def giving_up_notice_def maxRetries_def show_nat_1 show_nat_small or_else_def)

lemma start_timeout:
  assumes "\<not> starting s" and "\<not> ready s"
    and "env_port env = Inr p" and "env_exists env"
    and "env_isDev env \<or> MIN_EXE_SIZE \<le> env_size env"
    and "\<forall>i<60. alive_not_ready (obs i)"
  shows "start env obs s =
     (s\<lparr>starting := True, shouldRestart := True, outputBuffer := [], port := p,
        process := Some running, starting := False, ready := False,
        lastError := ''Python server failed to start after 30000ms''\<rparr>,
      Spawn # replicate 60 (Fetch p ''GET'' ''/api/health'' None)
        @ [Emit (Status False (Some ''Python server failed to start after 30000ms''))],
      Inl (ReadinessTimeout 30000))"
proof -
  define s1 where "s1 = s\<lparr>starting := True, shouldRestart := True, outputBuffer := [], port := p,
        process := Some running\<rparr>"
  have b: "start_begin env s = (s1, [Spawn], Spawned)"
    unfolding s1_def by (rule start_begin_spawn [OF assms(1-5)])
  have w: "waitForServer s1 obs =
      (Inl (ReadinessTimeout 30000), replicate 60 (Fetch p ''GET'' ''/api/health'' None))"
    unfolding waitForServer_def
    using waitLoop_timeout [of 60 60 obs s1 500] assms(6) by (simp add: s1_def)
  have "start env obs s =
     (s1\<lparr>starting := False, ready := False,
        lastError := ''Python server failed to start after 30000ms''\<rparr>,
      Spawn # replicate 60 (Fetch p ''GET'' ''/api/health'' None)
        @ [Emit (Status False (Some ''Python server failed to start after 30000ms''))],
      Inl (ReadinessTimeout 30000))"
    by (simp add: start_def b w start_resume_def start_catch_def show_nat_small)
  then show ?thesis unfolding s1_def by simp
qed

lemma start_success:
  assumes "\<not> starting s" and "\<not> ready s"
    and "env_port env = Inr p" and "env_exists env"
    and "env_isDev env \<or> MIN_EXE_SIZE \<le> env_size env"
    and "j < 60" and "\<forall>i<j. alive_not_ready (obs i)" and "alive_ready (obs j)"
  shows "start env obs s =
     (s\<lparr>starting := True, shouldRestart := True, outputBuffer := [], port := p,
        process := Some running, ready := True, starting := False, retryCount := 0\<rparr>,
      Spawn # replicate (Suc j) (Fetch p ''GET'' ''/api/health'' None)
        @ [Emit (Status True None)],
      Inr ())"
proof -
  define s1 where "s1 = s\<lparr>starting := True, shouldRestart := True, outputBuffer := [], port := p,
        process := Some running\<rparr>"
  have b: "start_begin env s = (s1, [Spawn], Spawned)"
    unfolding s1_def by (rule start_begin_spawn [OF assms(1-5)])
  have w: "waitForServer s1 obs =
      (Inr (), replicate (Suc j) (Fetch p ''GET'' ''/api/health'' None))"
    unfolding waitForServer_def
    using waitLoop_success [of 60 60 j obs s1 500] assms(6-8) by (simp add: s1_def)
  have "start env obs s =
     (s1\<lparr>ready := True, starting := False, retryCount := 0\<rparr>,
      Spawn # replicate (Suc j) (Fetch p ''GET'' ''/api/health'' None)
        @ [Emit (Status True None)],
      Inr ())"
    by (simp add: start_def b w start_resume_def start_ready_def)
  then show ?thesis unfolding s1_def by simp
qed

lemma start_no_restart: "restart_delays (fst (snd (start env obs s))) = []"
proof -
  have c: "\<And>s e. restart_delays (fst (snd (start_catch s e))) = []"
    by (simp add: start_catch_def)
  have r: "\<And>s r. restart_delays (fst (snd (start_resume s r))) = []"
    by (simp add: start_resume_def start_catch_def start_ready_def split: sum.splits)
  have b: "restart_delays (fst (snd (start_begin env s))) = []"
    by (simp add: start_begin_def Let_def split: sum.splits)
  show ?thesis
  proof (cases "start_begin env s")
    case (fields s1 effs ph)
    with b have effs: "restart_delays effs = []" by simp
    show ?thesis
    proof (cases ph)
      case AlreadyRunning
      with fields effs show ?thesis by (simp add: start_def)
    next
      case (Failed e)
      with fields effs c [of s1 e] show ?thesis
        by (simp add: start_def split_def Let_def restart_delays_append)
    next
      case Spawned
      with fields effs r [of s1 "fst (waitForServer s1 obs)"] show ?thesis
        by (simp add: start_def split_def Let_def restart_delays_append waitForServer_def
            waitLoop_no_restart)
    qed
  qed
qed


lemma status_events_replicate_Fetch: "status_events (replicate n (Fetch p m e b)) = []"
  by (induction n) simp_all

lemma restart_delays_replicate_Fetch: "restart_delays (replicate n (Fetch p m e b)) = []"
  by (induction n) simp_all

subsection \<open>Restart policy\<close>

text \<open>
  Claim C3. Let the worker exit with a non-null, nonzero code while auto-restart is
  enabled, and let \<open>n\<close> be the failure counter after the exit callback has incremented
  it, so that this is the \<open>n\<close>-th failure since the counter was last zero. With
  \<open>maxRetries = 3\<close>: if \<open>n \<le> 3\<close> the callback sets exactly one restart timer, of
  \<open>min (2000 * 2 ^ (n - 1)) 16000\<close> milliseconds, and emits exactly one status event, the
  retry notice for attempt \<open>n\<close> of 3; if \<open>n > 3\<close> it sets no restart timer and emits
  exactly one status event, the terminal failure notice, which ends with the last error
  (or \<open>Unknown error\<close> when there is none). In a run of consecutive failures that
  starts with the counter at zero, every restart spawning a worker that fails in turn,
  the restart timers are 2000, 4000 and 8000 ms, then no more, and the terminal failure
  notice is emitted exactly once.
\<close>

theorem restart_policy_backoff:
  assumes "shouldRestart s" and "code \<noteq> 0"
  shows "maxRetries = 3 \<and>
     retryCount (fst (on_exit s (Some code))) = retryCount s + 1 \<and>
     (retryCount s + 1 \<le> maxRetries \<longrightarrow>
        restart_delays (snd (on_exit s (Some code))) =
          [min (2000 * 2 ^ (retryCount s + 1 - 1)) 16000] \<and>
        status_events (snd (on_exit s (Some code))) =
          [(False, Some (''Backend crashed. Retrying ('' @ show_nat (retryCount s + 1) @ ''/3)...''))]) \<and>
     (maxRetries < retryCount s + 1 \<longrightarrow>
        restart_delays (snd (on_exit s (Some code))) = [] \<and>
        status_events (snd (on_exit s (Some code))) =
          [(False, Some (''Backend failed to start after 3 attempts. Last error: ''
             @ (if lastError s = [] then ''Unknown error'' else lastError s)))]) \<and>
     (retryCount s = 0 \<and> c2 \<noteq> 0 \<and> c3 \<noteq> 0 \<and> c4 \<noteq> 0 \<and>
      env_port env = Inr p \<and> env_exists env \<and> (env_isDev env \<or> MIN_EXE_SIZE \<le> env_size env) \<longrightarrow>
        restart_delays (snd (crash_chain env s (code # c2 # c3 # c4 # cs))) = [2000, 4000, 8000] \<and>
        length (filter is_giving_up (snd (crash_chain env s (code # c2 # c3 # c4 # cs)))) = 1)"
proof -
  have 1: "maxRetries = 3" by (simp add: maxRetries_def)
  have 2: "retryCount (fst (on_exit s (Some code))) = retryCount s + 1"
    using assms by (simp add: on_exit_eq Let_def stopPolling_fields)
  have 3: "retryCount s + 1 \<le> maxRetries \<longrightarrow>
        restart_delays (snd (on_exit s (Some code))) =
          [min (2000 * 2 ^ (retryCount s + 1 - 1)) 16000] \<and>
        status_events (snd (on_exit s (Some code))) =
          [(False, Some (''Backend crashed. Retrying ('' @ show_nat (retryCount s + 1) @ ''/3)...''))]"
  proof
    assume "retryCount s + 1 \<le> maxRetries"
    then have lt: "retryCount s < maxRetries" by simp
    show "restart_delays (snd (on_exit s (Some code))) =
          [min (2000 * 2 ^ (retryCount s + 1 - 1)) 16000] \<and>
        status_events (snd (on_exit s (Some code))) =
          [(False, Some (''Backend crashed. Retrying ('' @ show_nat (retryCount s + 1) @ ''/3)...''))]"
      using on_exit_retry(2,3) [OF assms lt]
      by (simp add: retrying_notice_def maxRetries_def show_nat_small)
  qed
  have 4: "maxRetries < retryCount s + 1 \<longrightarrow>
        restart_delays (snd (on_exit s (Some code))) = [] \<and>
        status_events (snd (on_exit s (Some code))) =
          [(False, Some (''Backend failed to start after 3 attempts. Last error: ''
             @ (if lastError s = [] then ''Unknown error'' else lastError s)))]"
  proof
    assume "maxRetries < retryCount s + 1"
    then have ge: "maxRetries \<le> retryCount s" by simp
    show "restart_delays (snd (on_exit s (Some code))) = [] \<and>
        status_events (snd (on_exit s (Some code))) =
          [(False, Some (''Backend failed to start after 3 attempts. Last error: ''
             @ (if lastError s = [] then ''Unknown error'' else lastError s)))]"
      using on_exit_give_up(2,3) [OF assms ge] by (simp add: notices)
  qed
  have 5: "retryCount s = 0 \<and> c2 \<noteq> 0 \<and> c3 \<noteq> 0 \<and> c4 \<noteq> 0 \<and>
      env_port env = Inr p \<and> env_exists env \<and> (env_isDev env \<or> MIN_EXE_SIZE \<le> env_size env) \<longrightarrow>
        restart_delays (snd (crash_chain env s (code # c2 # c3 # c4 # cs))) = [2000, 4000, 8000] \<and>
        length (filter is_giving_up (snd (crash_chain env s (code # c2 # c3 # c4 # cs)))) = 1"
  proof
    assume h: "retryCount s = 0 \<and> c2 \<noteq> 0 \<and> c3 \<noteq> 0 \<and> c4 \<noteq> 0 \<and>
      env_port env = Inr p \<and> env_exists env \<and> (env_isDev env \<or> MIN_EXE_SIZE \<le> env_size env)"
    show "restart_delays (snd (crash_chain env s (code # c2 # c3 # c4 # cs))) = [2000, 4000, 8000] \<and>
        length (filter is_giving_up (snd (crash_chain env s (code # c2 # c3 # c4 # cs)))) = 1"
      by (rule crash_chain_four [of s code c2 c3 c4 env p cs])
        (use assms h in simp_all)
  qed
  show ?thesis
    apply (rule conjI, rule 1)
    apply (rule conjI, rule 2)
    apply (rule conjI, rule 3)
    apply (rule conjI, rule 4)
    apply (rule 5)
    done
qed

theorem restart_policy_backoff_witness:
  "shouldRestart ready_bridge \<and> (1::int) \<noteq> 0 \<and> retryCount ready_bridge + 1 \<le> maxRetries \<and>
   restart_delays (snd (on_exit ready_bridge (Some 1))) = [2000] \<and>
   status_events (snd (on_exit ready_bridge (Some 1))) =
     [(False, Some ''Backend crashed. Retrying (1/3)...'')] \<and>
   shouldRestart (ready_bridge\<lparr>retryCount := 3, lastError := ''boom''\<rparr>) \<and>
   maxRetries < retryCount (ready_bridge\<lparr>retryCount := 3, lastError := ''boom''\<rparr>) + 1 \<and>
   restart_delays (snd (on_exit (ready_bridge\<lparr>retryCount := 3, lastError := ''boom''\<rparr>) (Some 1))) = [] \<and>
   status_events (snd (on_exit (ready_bridge\<lparr>retryCount := 3, lastError := ''boom''\<rparr>) (Some 1))) =
     [(False, Some ''Backend failed to start after 3 attempts. Last error: boom'')] \<and>
   restart_delays (snd (crash_chain (packaged_env 20000000) ready_bridge [1, 1, 1, 1])) =
     [2000, 4000, 8000] \<and>
   length (filter is_giving_up (snd (crash_chain (packaged_env 20000000) ready_bridge [1, 1, 1, 1]))) = 1"
proof -
  have h1: "shouldRestart ready_bridge"
    by (simp add: ready_bridge_def initial_def)
  have h2: "(1::int) \<noteq> 0"
    by simp
  have h3: "retryCount ready_bridge + 1 \<le> maxRetries"
    by (simp add: ready_bridge_def initial_def maxRetries_def)
  have h4: "shouldRestart (ready_bridge\<lparr>retryCount := 3, lastError := ''boom''\<rparr>)"
    by (simp add: ready_bridge_def initial_def)
  have h5: "maxRetries < retryCount (ready_bridge\<lparr>retryCount := 3, lastError := ''boom''\<rparr>) + 1"
    by (simp add: maxRetries_def)
  have h6: "retryCount ready_bridge = 0 \<and> (1::int) \<noteq> 0 \<and> (1::int) \<noteq> 0 \<and> (1::int) \<noteq> 0 \<and>
      env_port (packaged_env 20000000) = Inr 51000 \<and> env_exists (packaged_env 20000000) \<and>
      (env_isDev (packaged_env 20000000) \<or> MIN_EXE_SIZE \<le> env_size (packaged_env 20000000))"
    by (simp add: ready_bridge_def initial_def packaged_env_def MIN_EXE_SIZE_def)
  note first = restart_policy_backoff [OF h1 h2, of 1 1 1 "packaged_env 20000000" 51000 "[]"]
  note fourth = restart_policy_backoff [OF h4 h2, of 1 1 1 "packaged_env 20000000" 51000 "[]"]
  have c1: "restart_delays (snd (on_exit ready_bridge (Some 1))) = [2000] \<and>
     status_events (snd (on_exit ready_bridge (Some 1))) =
       [(False, Some ''Backend crashed. Retrying (1/3)...'')]"
    using first [THEN conjunct2, THEN conjunct2, THEN conjunct1, rule_format, OF h3]
    by (simp add: ready_bridge_def initial_def show_nat_1)
  have c2: "restart_delays (snd (on_exit (ready_bridge\<lparr>retryCount := 3, lastError := ''boom''\<rparr>) (Some 1))) = [] \<and>
     status_events (snd (on_exit (ready_bridge\<lparr>retryCount := 3, lastError := ''boom''\<rparr>) (Some 1))) =
       [(False, Some ''Backend failed to start after 3 attempts. Last error: boom'')]"
    using fourth [THEN conjunct2, THEN conjunct2, THEN conjunct2, THEN conjunct1, rule_format, OF h5]
    by simp
  have c3: "restart_delays (snd (crash_chain (packaged_env 20000000) ready_bridge [1, 1, 1, 1])) =
       [2000, 4000, 8000] \<and>
     length (filter is_giving_up (snd (crash_chain (packaged_env 20000000) ready_bridge [1, 1, 1, 1]))) = 1"
    using first [THEN conjunct2, THEN conjunct2, THEN conjunct2, THEN conjunct2, rule_format, OF h6]
    by (simp del: crash_chain.simps)
  show ?thesis
    using h1 h2 h3 h4 h5 c1 c2 c3 by (simp del: crash_chain.simps)
qed


text \<open>
  Claim C4. The continuation of \<open>start\<close> after a successful readiness probe sets the
  ready flag and sets the failure counter to zero, whatever the fields were. So in the
  sequence crash, restart, ready, crash (the first crash being one that is retried): the
  first crash is attempt \<open>retryCount s + 1\<close>, which is 1 for a fresh supervisor; the
  restarted \<open>start\<close>, whose probe succeeds at some attempt \<open>j\<close>, ends ready with the counter
  at zero; and the second crash is attempt 1 again, with the delay of 2000 ms and the
  notice for attempt 1 of 3. From that ready state a run of consecutive failures gets
  the full budget: three restarts, at 2000, 4000 and 8000 ms, before the terminal failure
  notice.
\<close>

theorem ready_resets_failure_counter:
  assumes "shouldRestart s" and "c1 \<noteq> 0" and "c2 \<noteq> 0" and "retryCount s < maxRetries"
    and "env_port env = Inr p" and "env_exists env"
    and "env_isDev env \<or> MIN_EXE_SIZE \<le> env_size env"
    and "j < 60" and "\<forall>i<j. alive_not_ready (obs i)" and "alive_ready (obs j)"
  shows "start_resume s' (Inr ()) =
       (s'\<lparr>ready := True, starting := False, retryCount := 0\<rparr>, [Emit (Status True None)], Inr ()) \<and>
     (let s1 = fst (after_exit s c1);
          s2 = fst (start env obs s1);
          s3 = fst (on_exit s2 (Some c2))
      in retryCount s1 = retryCount s + 1 \<and>
         restart_delays (snd (after_exit s c1)) = [min (2000 * 2 ^ retryCount s) 16000] \<and>
         snd (snd (start env obs s1)) = Inr () \<and>
         status_events (fst (snd (start env obs s1))) = [(True, None)] \<and>
         ready s2 \<and> retryCount s2 = 0 \<and>
         retryCount s3 = 1 \<and>
         restart_delays (snd (on_exit s2 (Some c2))) = [2000] \<and>
         status_events (snd (on_exit s2 (Some c2))) =
           [(False, Some ''Backend crashed. Retrying (1/3)...'')] \<and>
         (c3 \<noteq> 0 \<and> c4 \<noteq> 0 \<and> c5 \<noteq> 0 \<longrightarrow>
            restart_delays (snd (crash_chain env s2 (c2 # c3 # c4 # c5 # cs))) = [2000, 4000, 8000] \<and>
            length (filter is_giving_up (snd (crash_chain env s2 (c2 # c3 # c4 # c5 # cs)))) = 1))"
proof -
  define s1 where "s1 = fst (after_exit s c1)"
  define s2 where "s2 = fst (start env obs s1)"
  define s3 where "s3 = fst (on_exit s2 (Some c2))"
  note ae = after_exit_retry [OF assms(1,2,4), folded s1_def]
  note st = start_success [OF ae(3,4) assms(5-10)]
  have 0: "start_resume s' (Inr ()) =
       (s'\<lparr>ready := True, starting := False, retryCount := 0\<rparr>, [Emit (Status True None)], Inr ())"
    by (simp add: start_resume_def start_ready_def)
  have s2: "ready s2" "retryCount s2 = 0" "shouldRestart s2"
    unfolding s2_def st by simp_all
  have r: "snd (snd (start env obs s1)) = Inr ()"
    unfolding st by simp
  have ev: "status_events (fst (snd (start env obs s1))) = [(True, None)]"
    unfolding st by (simp add: status_events_append status_events_replicate_Fetch)
  have lt: "retryCount s2 < maxRetries"
    using s2 by (simp add: maxRetries_def)
  note second = on_exit_retry [OF s2(3) assms(3) lt]
  have 3: "retryCount s3 = 1" "restart_delays (snd (on_exit s2 (Some c2))) = [2000]"
      "status_events (snd (on_exit s2 (Some c2))) = [(False, Some ''Backend crashed. Retrying (1/3)...'')]"
    unfolding s3_def using second s2(2) by (simp_all add: notices)
  have 4: "c3 \<noteq> 0 \<and> c4 \<noteq> 0 \<and> c5 \<noteq> 0 \<longrightarrow>
            restart_delays (snd (crash_chain env s2 (c2 # c3 # c4 # c5 # cs))) = [2000, 4000, 8000] \<and>
            length (filter is_giving_up (snd (crash_chain env s2 (c2 # c3 # c4 # c5 # cs)))) = 1"
  proof
    assume h: "c3 \<noteq> 0 \<and> c4 \<noteq> 0 \<and> c5 \<noteq> 0"
    show "restart_delays (snd (crash_chain env s2 (c2 # c3 # c4 # c5 # cs))) = [2000, 4000, 8000] \<and>
            length (filter is_giving_up (snd (crash_chain env s2 (c2 # c3 # c4 # c5 # cs)))) = 1"
      by (rule crash_chain_four [of s2 c2 c3 c4 c5 env p cs])
        (use assms s2 h in simp_all)
  qed
  have "retryCount s1 = retryCount s + 1 \<and>
         restart_delays (snd (after_exit s c1)) = [min (2000 * 2 ^ retryCount s) 16000] \<and>
         snd (snd (start env obs s1)) = Inr () \<and>
         status_events (fst (snd (start env obs s1))) = [(True, None)] \<and>
         ready s2 \<and> retryCount s2 = 0 \<and>
         retryCount s3 = 1 \<and>
         restart_delays (snd (on_exit s2 (Some c2))) = [2000] \<and>
         status_events (snd (on_exit s2 (Some c2))) =
           [(False, Some ''Backend crashed. Retrying (1/3)...'')] \<and>
         (c3 \<noteq> 0 \<and> c4 \<noteq> 0 \<and> c5 \<noteq> 0 \<longrightarrow>
            restart_delays (snd (crash_chain env s2 (c2 # c3 # c4 # c5 # cs))) = [2000, 4000, 8000] \<and>
            length (filter is_giving_up (snd (crash_chain env s2 (c2 # c3 # c4 # c5 # cs)))) = 1)"
    using ae(1,5) r ev s2(1,2) 3 4 by (simp del: crash_chain.simps)
  then show ?thesis
    using 0 unfolding Let_def s1_def s2_def s3_def by (simp del: crash_chain.simps)
qed

theorem ready_resets_failure_counter_witness:
  "shouldRestart ready_bridge \<and> (1::int) \<noteq> 0 \<and> (2::int) \<noteq> 0 \<and>
   retryCount ready_bridge < maxRetries \<and>
   alive_not_ready (healthy_at_third 0) \<and> alive_not_ready (healthy_at_third 1) \<and>
   alive_ready (healthy_at_third 2) \<and>
   (let s1 = fst (after_exit ready_bridge 1);
        s2 = fst (start (packaged_env 20000000) healthy_at_third s1);
        s3 = fst (on_exit s2 (Some 2))
    in retryCount s1 = 1 \<and>
       restart_delays (snd (after_exit ready_bridge 1)) = [2000] \<and>
       snd (snd (start (packaged_env 20000000) healthy_at_third s1)) = Inr () \<and>
       ready s2 \<and> retryCount s2 = 0 \<and> retryCount s3 = 1 \<and>
       restart_delays (snd (on_exit s2 (Some 2))) = [2000] \<and>
       status_events (snd (on_exit s2 (Some 2))) =
         [(False, Some ''Backend crashed. Retrying (1/3)...'')])"
proof -
  have h1: "shouldRestart ready_bridge"
    by (simp add: ready_bridge_def initial_def)
  have h2: "(1::int) \<noteq> 0" and h3: "(2::int) \<noteq> 0"
    by simp_all
  have h4: "retryCount ready_bridge < maxRetries"
    by (simp add: ready_bridge_def initial_def maxRetries_def)
  have h5: "env_port (packaged_env 20000000) = Inr 51000"
    and h6: "env_exists (packaged_env 20000000)"
    and h7: "env_isDev (packaged_env 20000000) \<or> MIN_EXE_SIZE \<le> env_size (packaged_env 20000000)"
    by (simp_all add: packaged_env_def MIN_EXE_SIZE_def)
  have h8: "(2::nat) < 60"
    by simp
  have h9: "\<forall>i<2. alive_not_ready (healthy_at_third i)"
    by (simp add: healthy_at_third_def alive_not_ready_def process_gone_def running_def
        health_ok_def)
  have h10: "alive_ready (healthy_at_third 2)"
    by (simp add: healthy_at_third_def alive_ready_def process_gone_def running_def
        health_ok_def)
  have r0: "retryCount ready_bridge = 0"
    by (simp add: ready_bridge_def initial_def)
  note inst = ready_resets_failure_counter [OF h1 h2 h3 h4 h5 h6 h7 h8 h9 h10, THEN conjunct2]
  show ?thesis
    using inst h1 h4 h9 h10 r0 by (simp add: Let_def del: crash_chain.simps)
qed

subsection \<open>Readiness timeout\<close>

lemma start_timeout_example:
  "start (packaged_env 20000000) never_healthy initial =
     (initial\<lparr>starting := True, shouldRestart := True, outputBuffer := [], port := 51000,
        process := Some running, starting := False, ready := False,
        lastError := ''Python server failed to start after 30000ms''\<rparr>,
      Spawn # replicate 60 (Fetch 51000 ''GET'' ''/api/health'' None)
        @ [Emit (Status False (Some ''Python server failed to start after 30000ms''))],
      Inl (ReadinessTimeout 30000))"
  by (rule start_timeout)
    (simp_all add: initial_def packaged_env_def never_healthy_def alive_not_ready_def
      process_gone_def running_def health_ok_def MIN_EXE_SIZE_def)

text \<open>
  Claim C7, as stated, fails. In a packaged installation with a sound executable the
  worker is spawned, stays alive and never answers the health endpoint: \<open>start\<close> fails
  with the readiness timeout after its 60 attempts, and no restart timer has been set.
  The bridge is neither ready nor starting, the worker still runs (so no exit callback
  is due), and the failure counter is still zero: the retries are not exhausted, and
  none is under way.
\<close>

theorem readiness_timeout_not_retried:
  "snd (snd (start (packaged_env 20000000) never_healthy initial)) = Inl (ReadinessTimeout 30000) \<and>
   restart_delays (fst (snd (start (packaged_env 20000000) never_healthy initial))) = [] \<and>
   \<not> ready (fst (start (packaged_env 20000000) never_healthy initial)) \<and>
   \<not> starting (fst (start (packaged_env 20000000) never_healthy initial)) \<and>
   process (fst (start (packaged_env 20000000) never_healthy initial)) = Some running \<and>
   retryCount (fst (start (packaged_env 20000000) never_healthy initial)) = 0"
  unfolding start_timeout_example
  by (simp add: restart_delays_append restart_delays_replicate_Fetch initial_def)

text \<open>
  Claim C7, amended. When a start attempt fails with a readiness timeout (the worker is
  spawned and for all 60 attempts is alive without a successful health answer), \<open>start\<close>
  reports the failure once, as a not-ready status event carrying the timeout message,
  records the message as last error, leaves the bridge neither starting nor ready with
  the worker still running, and fails with the timeout error. It sets no restart timer
  and leaves the failure counter as it was. No call of \<open>start\<close> ever sets a restart
  timer; the exit callback is the one place that does, and it does so exactly when
  auto-restart is enabled, the exit code is neither null nor zero, and the counter is
  below \<open>maxRetries\<close>.
\<close>

theorem readiness_timeout_reported_once:
  assumes "\<not> starting s" and "\<not> ready s"
    and "env_port env = Inr p" and "env_exists env"
    and "env_isDev env \<or> MIN_EXE_SIZE \<le> env_size env"
    and "\<forall>i<60. alive_not_ready (obs i)"
  shows "start env obs s =
       (s\<lparr>starting := True, shouldRestart := True, outputBuffer := [], port := p,
          process := Some running, starting := False, ready := False,
          lastError := ''Python server failed to start after 30000ms''\<rparr>,
        Spawn # replicate 60 (Fetch p ''GET'' ''/api/health'' None)
          @ [Emit (Status False (Some ''Python server failed to start after 30000ms''))],
        Inl (ReadinessTimeout 30000)) \<and>
     restart_delays (fst (snd (start env obs s))) = [] \<and>
     retryCount (fst (start env obs s)) = retryCount s \<and>
     restart_delays (fst (snd (start env' obs' s'))) = [] \<and>
     (restart_delays (snd (on_exit s' code)) \<noteq> [] \<longleftrightarrow>
        shouldRestart s' \<and> code \<noteq> None \<and> code \<noteq> Some 0 \<and> retryCount s' < maxRetries)"
proof -
  note t = start_timeout [OF assms]
  have 2: "restart_delays (fst (snd (start env obs s))) = []"
    by (rule start_no_restart)
  have 3: "retryCount (fst (start env obs s)) = retryCount s"
    unfolding t by simp
  have 4: "restart_delays (fst (snd (start env' obs' s'))) = []"
    by (rule start_no_restart)
  have 5: "restart_delays (snd (on_exit s' code)) \<noteq> [] \<longleftrightarrow>
        shouldRestart s' \<and> code \<noteq> None \<and> code \<noteq> Some 0 \<and> retryCount s' < maxRetries"
    by (rule on_exit_restart_iff)
  show ?thesis
    apply (rule conjI, rule t)
    apply (rule conjI, rule 2)
    apply (rule conjI, rule 3)
    apply (rule conjI, rule 4)
    apply (rule 5)
    done
qed

theorem readiness_timeout_reported_once_witness:
  "\<not> starting initial \<and> \<not> ready initial \<and> alive_not_ready (never_healthy 59) \<and>
   start (packaged_env 20000000) never_healthy initial =
     (initial\<lparr>starting := True, shouldRestart := True, outputBuffer := [], port := 51000,
        process := Some running, starting := False, ready := False,
        lastError := ''Python server failed to start after 30000ms''\<rparr>,
      Spawn # replicate 60 (Fetch 51000 ''GET'' ''/api/health'' None)
        @ [Emit (Status False (Some ''Python server failed to start after 30000ms''))],
      Inl (ReadinessTimeout 30000))"
proof -
  have h1: "\<not> starting initial" and h2: "\<not> ready initial"
    by (simp_all add: initial_def)
  have h3: "env_port (packaged_env 20000000) = Inr 51000"
    and h4: "env_exists (packaged_env 20000000)"
    and h5: "env_isDev (packaged_env 20000000) \<or> MIN_EXE_SIZE \<le> env_size (packaged_env 20000000)"
    by (simp_all add: packaged_env_def MIN_EXE_SIZE_def)
  have h6: "\<forall>i<60. alive_not_ready (never_healthy i)"
    by (simp add: never_healthy_def alive_not_ready_def process_gone_def running_def
        health_ok_def)
  note inst = readiness_timeout_reported_once [OF h1 h2 h3 h4 h5 h6, THEN conjunct1]
  show ?thesis
    apply (rule conjI, rule h1)
    apply (rule conjI, rule h2)
    apply (rule conjI, rule h6 [rule_format, of 59], simp)
    apply (rule inst)
    done
qed

subsection \<open>Size check of the packaged executable\<close>

text \<open>
  Claim C8 at the threshold. The guard of \<open>start\<close> is \<open>stats.size < MIN_EXE_SIZE\<close>, so in
  packaged mode an executable of exactly 10485760 bytes is spawned, while the message of
  the error thrown one byte below says \<open>expected > 10485760\<close>.
\<close>

theorem start_accepts_threshold_size:
  "MIN_EXE_SIZE = 10485760 \<and>
   start_begin (packaged_env 10485760) initial =
     (initial\<lparr>starting := True, port := 51000, process := Some running\<rparr>, [Spawn], Spawned) \<and>
   start_begin (packaged_env 10485759) initial =
     (initial\<lparr>starting := True, port := 51000\<rparr>, [], Failed (CorruptExecutable 10485759))"
  by (simp add: start_begin_def packaged_env_def initial_def running_def MIN_EXE_SIZE_def)

subsection \<open>Shutdown\<close>











end
